theory Spec2Isabelle
  imports Main "HOL-Library.Sublist"
begin

section \<open>Python string and path primitives\<close>

text \<open>
  Strings are character lists. \<open>s.startswith(p)\<close>, \<open>s.endswith(e)\<close> and \<open>x in s\<close> are the
  list notions \<open>prefix\<close>, \<open>suffix\<close> and (contiguous) \<open>sublist\<close>.
\<close>

definition startswith :: "string \<Rightarrow> string \<Rightarrow> bool" where
  "startswith s p = prefix p s"

definition endswith :: "string \<Rightarrow> string \<Rightarrow> bool" where
  "endswith s e = suffix e s"

definition contains :: "string \<Rightarrow> string \<Rightarrow> bool" where
  "contains s x = sublist x s"

text \<open>Truthiness of an optional string: \<open>None\<close> and the empty string are both false.\<close>

fun truthy :: "string option \<Rightarrow> bool" where
  "truthy None = False"
| "truthy (Some s) = (s \<noteq> [])"

text \<open>\<open>os.path.join(a, b)\<close> for two components (posixpath).\<close>

definition path_join :: "string \<Rightarrow> string \<Rightarrow> string" where
  "path_join a b =
     (if startswith b ''/'' then b
      else if a = [] \<or> endswith a ''/'' then a @ b
      else a @ ''/'' @ b)"

section \<open>Clock readings\<close>

record datetime =
  year :: nat
  month :: nat
  day :: nat
  hour :: nat
  minute :: nat
  second :: nat

definition digit :: "nat \<Rightarrow> char" where
  "digit n = ''0123456789'' ! (n mod 10)"

definition zero_pad2 :: "nat \<Rightarrow> string" where
  "zero_pad2 n = [digit (n div 10), digit n]"

definition zero_pad4 :: "nat \<Rightarrow> string" where
  "zero_pad4 n = [digit (n div 1000), digit (n div 100), digit (n div 10), digit n]"

text \<open>\<open>strftime("%Y%m%d")\<close> and \<open>strftime("%Y%m%d_%H%M%S")\<close>, for years of four digits
  (every year \<open>datetime.now()\<close> returns).\<close>

definition strftime_Ymd :: "datetime \<Rightarrow> string" where
  "strftime_Ymd d = zero_pad4 (year d) @ zero_pad2 (month d) @ zero_pad2 (day d)"

definition strftime_Ymd_HMS :: "datetime \<Rightarrow> string" where
  "strftime_Ymd_HMS d =
     strftime_Ymd d @ ''_'' @ zero_pad2 (hour d) @ zero_pad2 (minute d) @ zero_pad2 (second d)"

section \<open>The file system as the code reads it\<close>

text \<open>
  \<open>fs_listdir\<close> maps each existing directory to what \<open>os.listdir\<close> returns for it, in that
  order; a path outside its domain is not a directory (\<open>os.path.isdir\<close> is false).
  \<open>fs_getmtime\<close> is \<open>os.path.getmtime\<close>; modification times are values of a linear order.
\<close>

record 't filesystem =
  fs_listdir :: "string \<rightharpoonup> string list"
  fs_getmtime :: "string \<Rightarrow> 't"

section \<open>Dedup guard: \<open>_has_today_backup\<close> (main.py)\<close>

text \<open>The body of the \<open>for f in os.listdir(backup_dir)\<close> loop, with its two \<open>continue\<close>s and
  its early \<open>return True\<close>.\<close>

fun has_today_scan :: "string option \<Rightarrow> string \<Rightarrow> string list \<Rightarrow> string list \<Rightarrow> bool" where
  "has_today_scan db_name date_tag extensions [] = False"
| "has_today_scan db_name date_tag extensions (f # rest) =
     (if truthy db_name \<and> \<not> startswith f (the db_name @ ''_'' @ date_tag) then
        has_today_scan db_name date_tag extensions rest
      else if \<not> truthy db_name \<and> \<not> contains f (''_'' @ date_tag @ ''_'') then
        has_today_scan db_name date_tag extensions rest
      else if list_ex (endswith f) extensions then True
      else has_today_scan db_name date_tag extensions rest)"

definition has_today_backup ::
  "'t filesystem \<Rightarrow> datetime \<Rightarrow> string \<Rightarrow> string option \<Rightarrow> string list \<Rightarrow> bool" where
  "has_today_backup fs now backup_dir db_name extensions =
     (case fs_listdir fs backup_dir of
        None \<Rightarrow> False
      | Some names \<Rightarrow> has_today_scan db_name (strftime_Ymd now) extensions names)"

text \<open>The default of the keyword argument \<open>extensions\<close>.\<close>

definition default_extensions :: "string list" where
  "default_extensions = [''.sql'', ''.backup'']"

section \<open>Restore selector: \<open>_list_backup_files\<close> and \<open>_choose_latest\<close> (client_restore.py)\<close>

definition POSTGRES_EXT_PRIORIDAD :: "string list" where
  "POSTGRES_EXT_PRIORIDAD = [''.backup'', ''.sql'']"

definition MYSQL_EXT :: "string list" where
  "MYSQL_EXT = [''.sql'']"

text \<open>The collecting loop of \<open>_list_backup_files\<close>.\<close>

fun collect_backup_files :: "string \<Rightarrow> string \<Rightarrow> string list \<Rightarrow> string list \<Rightarrow> string list" where
  "collect_backup_files backup_dir pre exts [] = []"
| "collect_backup_files backup_dir pre exts (f # rest) =
     (if \<not> startswith f pre then collect_backup_files backup_dir pre exts rest
      else if list_ex (endswith f) exts then
        path_join backup_dir f # collect_backup_files backup_dir pre exts rest
      else collect_backup_files backup_dir pre exts rest)"

text \<open>\<open>files.sort(key=getmtime, reverse=True)\<close>: a stable sort, descending; equal keys keep
  their original order.\<close>

definition sort_mtime_desc :: "('t::linorder) filesystem \<Rightarrow> string list \<Rightarrow> string list" where
  "sort_mtime_desc fs files = rev (sort_key (fs_getmtime fs) (rev files))"

definition list_backup_files ::
  "('t::linorder) filesystem \<Rightarrow> string \<Rightarrow> string \<Rightarrow> string list \<Rightarrow> string list" where
  "list_backup_files fs backup_dir db_name exts =
     (case fs_listdir fs backup_dir of
        None \<Rightarrow> []
      | Some names \<Rightarrow>
          sort_mtime_desc fs (collect_backup_files backup_dir (db_name @ ''_'') exts names))"

text \<open>The inner loop \<open>for f in files\<close> and the outer loop \<open>for ext in preferred_order\<close> of
  \<open>_choose_latest\<close>.\<close>

fun first_with_ext :: "string list \<Rightarrow> string \<Rightarrow> string option" where
  "first_with_ext [] ext = None"
| "first_with_ext (f # rest) ext = (if endswith f ext then Some f else first_with_ext rest ext)"

fun choose_by_order :: "string list \<Rightarrow> string list \<Rightarrow> string option" where
  "choose_by_order files [] = None"
| "choose_by_order files (ext # others) =
     (case first_with_ext files ext of
        Some f \<Rightarrow> Some f
      | None \<Rightarrow> choose_by_order files others)"

definition choose_latest :: "string list \<Rightarrow> string list \<Rightarrow> string option" where
  "choose_latest files preferred_order =
     (case files of
        [] \<Rightarrow> None
      | newest # _ \<Rightarrow>
          (case choose_by_order files preferred_order of
             Some f \<Rightarrow> Some f
           | None \<Rightarrow> Some newest))"

text \<open>The selector as the specification words it: take the first extension of the
  preferred order that any candidate ends with, and return the first candidate ending with
  it; with no such extension, return the head of the list.\<close>

definition choose_latest_spec :: "string list \<Rightarrow> string list \<Rightarrow> string option" where
  "choose_latest_spec files preferred_order =
     (case find (\<lambda>ext. \<exists>f \<in> set files. suffix ext f) preferred_order of
        Some ext \<Rightarrow> find (suffix ext) files
      | None \<Rightarrow> Some (hd files))"

section \<open>External commands, exceptions and the log\<close>

text \<open>
  The exceptions the modelled code can raise. A \<open>CalledProcessError\<close> carries the return
  code, the command and \<open>stderr\<close>; \<open>subprocess.run\<close> fills \<open>stderr\<close> only when the output was
  captured, and leaves it \<open>None\<close> otherwise. \<open>OSError\<close> stands for every other exception a
  process start can raise (a missing executable, for one).
\<close>

datatype exn =
    CalledProcessError int "string list" "string option"
  | KeyError string
  | AttributeError string
  | OSError string

text \<open>One call of \<open>subprocess.run(cmd, check=True, text=capture, capture_output=capture,
  env=env)\<close>. \<open>call_env = None\<close> inherits the environment; \<open>Some bs\<close> is \<open>os.environ\<close> updated
  with the bindings \<open>bs\<close>.\<close>

record call =
  argv :: "string list"
  call_env :: "(string \<times> string) list option"
  capture :: bool

text \<open>What the outside world answers to a call: the process exits with a return code,
  standard output and standard error, or it could not be started.\<close>

datatype outcome =
    Exited int string string
  | Spawn_failed string

text \<open>The world is any function from the calls made so far and the present call to an
  outcome, together with the successive readings of \<open>datetime.now()\<close>.\<close>

record world =
  respond :: "call list \<Rightarrow> call \<Rightarrow> outcome"
  clock :: "nat \<Rightarrow> datetime"

text \<open>Log records, one constructor per message of the code:
  \<^item> \<open>Warn_mysql_retry rc\<close>: "MySQL SHOW DATABASES failed (\%s). Retrying without host..."
  \<^item> \<open>Err_need_db_or_file\<close>: "Debe especificar 'db' o 'file_path' para restaurar."
  \<^item> \<open>Err_unsupported_type t\<close>: "Tipo de base de datos no soportado: \%s"
  \<^item> \<open>Err_no_backups db dir\<close>: "No se encontraron backups para \%s en \%s"
  \<^item> \<open>Info_restoring db file\<close>: "Restaurando \%s desde \%s"
  \<^item> \<open>Info_restored db\<close>: "Restauracion completada: \%s"
  \<^item> \<open>Err_restore_failed safe_conf rc cmd stderr\<close>: "Fallo restauracion (\%s): rc=\%s cmd=\%s stderr=\%s"
  \<^item> \<open>Exc_unexpected e\<close>: \<open>LOGGER.exception\<close> "Error inesperado durante la restauracion"
\<close>

datatype log_entry =
    Warn_mysql_retry int
  | Err_need_db_or_file
  | Err_unsupported_type string
  | Err_no_backups string string
  | Info_restoring string string
  | Info_restored string
  | Err_restore_failed "(string \<times> string) list" int "string list" string
  | Exc_unexpected exn

text \<open>The state threaded through the code: the external calls made so far with their
  outcomes, the log, and how many times the clock was read.\<close>

record state =
  trace :: "(call \<times> outcome) list"
  log :: "log_entry list"
  reads :: nat

definition init_state :: state where
  "init_state = \<lparr>trace = [], log = [], reads = 0\<rparr>"

type_synonym 'a prog = "state \<Rightarrow> (exn + 'a) \<times> state"

definition return :: "'a \<Rightarrow> 'a prog" where
  "return x s = (Inr x, s)"

definition raise :: "exn \<Rightarrow> 'a prog" where
  "raise e s = (Inl e, s)"

text \<open>Sequencing: an exception of the first part skips the second.\<close>

definition and_then :: "'a prog \<Rightarrow> ('a \<Rightarrow> 'b prog) \<Rightarrow> 'b prog" where
  "and_then m f s = (case m s of (Inl e, s') \<Rightarrow> (Inl e, s') | (Inr x, s') \<Rightarrow> f x s')"

text \<open>\<open>try: body finally: fin\<close>: \<open>fin\<close> runs whatever \<open>body\<close> did; an exception of \<open>fin\<close>
  replaces the outcome of \<open>body\<close>.\<close>

definition try_finally :: "'a prog \<Rightarrow> unit prog \<Rightarrow> 'a prog" where
  "try_finally body fin s =
     (case body s of (r, s') \<Rightarrow>
        (case fin s' of (Inl e, s'') \<Rightarrow> (Inl e, s'') | (Inr _, s'') \<Rightarrow> (r, s'')))"

text \<open>\<open>try: m except Exception: pass\<close>.\<close>

definition swallow :: "'a prog \<Rightarrow> unit prog" where
  "swallow m s = (case m s of (_, s') \<Rightarrow> (Inr (), s'))"

definition write_log :: "log_entry \<Rightarrow> unit prog" where
  "write_log e s = (Inr (), s\<lparr>log := log s @ [e]\<rparr>)"

text \<open>\<open>datetime.now()\<close>: the next reading of the clock.\<close>

definition datetime_now :: "world \<Rightarrow> datetime prog" where
  "datetime_now w s = (Inr (clock w (reads s)), s\<lparr>reads := Suc (reads s)\<rparr>)"

text \<open>\<open>run\<close> (client_backup.py). It returns the captured standard output, \<open>None\<close> when
  nothing was captured. Its \<open>logging.debug\<close> line is below the configured level and is left
  out.\<close>

definition run ::
  "world \<Rightarrow> string list \<Rightarrow> (string \<times> string) list option \<Rightarrow> bool \<Rightarrow> string option prog" where
  "run w cmd env capt s =
     (let c = \<lparr>argv = cmd, call_env = env, capture = capt\<rparr>;
          out = respond w (map fst (trace s)) c;
          s' = s\<lparr>trace := trace s @ [(c, out)]\<rparr>
      in case out of
           Spawn_failed m \<Rightarrow> (Inl (OSError m), s')
         | Exited rc so se \<Rightarrow>
             if rc \<noteq> 0 then
               (Inl (CalledProcessError rc cmd (if capt then Some se else None)), s')
             else (Inr (if capt then Some so else None), s'))"

text \<open>\<open>docker_exec\<close>: \<open>env_vars\<close> is the dictionary in insertion order, empty when absent.\<close>

definition docker_exec_cmd :: "string \<Rightarrow> string list \<Rightarrow> (string \<times> string) list \<Rightarrow> string list" where
  "docker_exec_cmd container inner_cmd env_vars =
     [''docker'', ''exec'']
     @ concat (map (\<lambda>(k, v). [''-e'', k @ ''='' @ v]) env_vars)
     @ [container] @ inner_cmd"

definition docker_exec ::
  "world \<Rightarrow> string \<Rightarrow> string list \<Rightarrow> (string \<times> string) list \<Rightarrow> bool \<Rightarrow> string option prog" where
  "docker_exec w container inner_cmd env_vars capt =
     run w (docker_exec_cmd container inner_cmd env_vars) None capt"

section \<open>Text helpers of the enumerators\<close>

text \<open>\<open>str.splitlines()\<close> and \<open>str.strip()\<close> on code points below 256: the line boundaries
  are LF, VT, FF, CR, CR LF, FS, GS, RS and NEL; the white space is TAB to CR, FS to US,
  the space, NEL and the no-break space.\<close>

definition is_linebreak :: "char \<Rightarrow> bool" where
  "is_linebreak c \<longleftrightarrow>
     c \<in> {CHR 0x0A, CHR 0x0B, CHR 0x0C, CHR 0x0D, CHR 0x1C, CHR 0x1D, CHR 0x1E, CHR 0x85}"

definition is_space :: "char \<Rightarrow> bool" where
  "is_space c \<longleftrightarrow>
     c \<in> {CHR 0x09, CHR 0x0A, CHR 0x0B, CHR 0x0C, CHR 0x0D, CHR 0x1C, CHR 0x1D, CHR 0x1E,
          CHR 0x1F, CHR 0x20, CHR 0x85, CHR 0xA0}"

fun splitlines_from :: "string \<Rightarrow> string \<Rightarrow> string list" where
  "splitlines_from cur [] = (if cur = [] then [] else [rev cur])"
| "splitlines_from cur [c] = (if is_linebreak c then [rev cur] else [rev (c # cur)])"
| "splitlines_from cur (c # d # cs) =
     (if c = CHR 0x0D \<and> d = CHR 0x0A then rev cur # splitlines_from [] cs
      else if is_linebreak c then rev cur # splitlines_from [] (d # cs)
      else splitlines_from (c # cur) (d # cs))"

definition splitlines :: "string \<Rightarrow> string list" where
  "splitlines txt = splitlines_from [] txt"

definition strip :: "string \<Rightarrow> string" where
  "strip s = rev (dropWhile is_space (rev (dropWhile is_space s)))"

text \<open>\<open>list.insert(i, x)\<close> for a non-negative index.\<close>

definition list_insert :: "nat \<Rightarrow> 'a \<Rightarrow> 'a list \<Rightarrow> 'a list" where
  "list_insert i x xs = take i xs @ x # drop i xs"

section \<open>Database enumerator (client_backup.py)\<close>

definition POSTGRES_EXCLUDE :: "string set" where
  "POSTGRES_EXCLUDE = {''postgres''}"

definition MYSQL_EXCLUDE :: "string set" where
  "MYSQL_EXCLUDE = {''information_schema'', ''performance_schema'', ''mysql'', ''sys''}"

definition pg_list_query :: string where
  "pg_list_query = ''SELECT datname FROM pg_database WHERE datistemplate = false;''"

definition mysql_list_query :: string where
  "mysql_list_query = ''SHOW DATABASES;''"

text \<open>The two list comprehensions over \<open>result.stdout.splitlines()\<close>.\<close>

definition postgres_names :: "string \<Rightarrow> string list" where
  "postgres_names out =
     map strip (filter (\<lambda>d. strip d \<noteq> [] \<and> strip d \<notin> POSTGRES_EXCLUDE) (splitlines out))"

definition mysql_names :: "string \<Rightarrow> string list" where
  "mysql_names out =
     map strip
       (filter (\<lambda>d. strip d \<noteq> [] \<and> strip d \<notin> MYSQL_EXCLUDE \<and> \<not> startswith d ''Database'')
          (splitlines out))"

text \<open>\<open>result.stdout\<close> is a string because both enumerators capture the output; the
  \<open>None\<close> branch is what \<open>None.splitlines()\<close> would raise.\<close>

definition stdout_lines :: "(string \<Rightarrow> string list) \<Rightarrow> string option \<Rightarrow> string list prog" where
  "stdout_lines names out =
     (case out of
        None \<Rightarrow> raise (AttributeError ''splitlines'')
      | Some txt \<Rightarrow> return (names txt))"

definition list_postgres_databases ::
  "world \<Rightarrow> string \<Rightarrow> string \<Rightarrow> string \<Rightarrow> string \<Rightarrow> string option \<Rightarrow> string list prog" where
  "list_postgres_databases w user password port host container =
     and_then
       (if truthy container then
          docker_exec w (the container)
            [''psql'', ''-U'', user, ''-d'', ''postgres'', ''-t'', ''-c'', pg_list_query] [] True
        else
          run w [''psql'', ''-U'', user, ''-h'', host, ''-p'', port, ''-d'', ''postgres'', ''-t'',
                 ''-c'', pg_list_query]
            (Some [(''PGPASSWORD'', password)]) True)
       (stdout_lines postgres_names)"

definition mysql_base_parts :: "string \<Rightarrow> string \<Rightarrow> string \<Rightarrow> string \<Rightarrow> string option \<Rightarrow> string list" where
  "mysql_base_parts user password port host container =
     (if truthy container then
        [''mysql'', ''-u'' @ user, ''-p'' @ password, ''-e'', mysql_list_query]
      else
        (let base_parts =
               [''mysql'', ''-u'' @ user, ''-p'' @ password, ''-P'' @ port, ''-e'', mysql_list_query]
         in if host \<noteq> [] then list_insert 3 (''-h'' @ host) base_parts else base_parts))"

text \<open>The inner function \<open>attempt\<close>.\<close>

definition attempt :: "world \<Rightarrow> string option \<Rightarrow> string list \<Rightarrow> string option prog" where
  "attempt w container parts =
     (if truthy container then docker_exec w (the container) parts [] True
      else run w parts None True)"

text \<open>The list comprehension that builds \<open>retry\<close>.\<close>

definition without_host_flag :: "string list \<Rightarrow> string list" where
  "without_host_flag parts = filter (\<lambda>p. \<not> (startswith p ''-h'' \<and> p \<noteq> ''-h'')) parts"

definition list_mysql_databases ::
  "world \<Rightarrow> string \<Rightarrow> string \<Rightarrow> string \<Rightarrow> string \<Rightarrow> string option \<Rightarrow> string list prog" where
  "list_mysql_databases w user password port host container s =
     (let base_parts = mysql_base_parts user password port host container
      in case attempt w container base_parts s of
           (Inl (CalledProcessError rc c se), s1) \<Rightarrow>
             and_then (write_log (Warn_mysql_retry rc))
               (\<lambda>_. and_then (attempt w container (without_host_flag base_parts))
                       (stdout_lines mysql_names)) s1
         | (Inl e, s1) \<Rightarrow> (Inl e, s1)
         | (Inr out, s1) \<Rightarrow> stdout_lines mysql_names out s1)"

section \<open>Backup executor: \<open>backup_postgres_db\<close> (client_backup.py)\<close>

text \<open>The file names and commands of \<open>backup_postgres_db\<close>: the name \<open><db>_<ts><ext>\<close>, the
  remote path under \<open>/tmp\<close>, the local path under \<open>backup_dir\<close>, the two forms of the
  \<open>pg_dump\<close> command (\<open>fmt\<close> is \<open>p\<close> or \<open>c\<close>), the copy out of the container and the
  removal of the remote file.\<close>

definition dump_name :: "string \<Rightarrow> string \<Rightarrow> string \<Rightarrow> string" where
  "dump_name db ts ext = db @ ''_'' @ ts @ ext"

definition remote_dump :: "string \<Rightarrow> string \<Rightarrow> string \<Rightarrow> string" where
  "remote_dump db ts ext = ''/tmp/'' @ dump_name db ts ext"

definition local_dump :: "string \<Rightarrow> string \<Rightarrow> string \<Rightarrow> string \<Rightarrow> string" where
  "local_dump backup_dir db ts ext = path_join backup_dir (dump_name db ts ext)"

definition pg_dump_container_cmd :: "string \<Rightarrow> string \<Rightarrow> string \<Rightarrow> string \<Rightarrow> string list" where
  "pg_dump_container_cmd user db fmt target =
     [''pg_dump'', ''-U'', user, ''-d'', db, ''-F'', fmt, ''-f'', target]"

definition pg_dump_host_cmd ::
  "string \<Rightarrow> string \<Rightarrow> string \<Rightarrow> string \<Rightarrow> string \<Rightarrow> string \<Rightarrow> string list" where
  "pg_dump_host_cmd user host port db fmt target =
     [''pg_dump'', ''-U'', user, ''-h'', host, ''-p'', port, ''-d'', db, ''-F'', fmt, ''-f'', target]"

definition docker_cp_cmd :: "string \<Rightarrow> string \<Rightarrow> string list" where
  "docker_cp_cmd src dst = [''docker'', ''cp'', src, dst]"

definition container_path :: "string \<Rightarrow> string \<Rightarrow> string" where
  "container_path container path = container @ '':'' @ path"

definition rm_cmd :: "string \<Rightarrow> string list" where
  "rm_cmd path = [''rm'', path]"

definition backup_postgres_db ::
  "world \<Rightarrow> string \<Rightarrow> string \<Rightarrow> string \<Rightarrow> string \<Rightarrow> string \<Rightarrow> string \<Rightarrow> string option \<Rightarrow> unit prog" where
  "backup_postgres_db w db user password port host backup_dir container =
     and_then (datetime_now w) (\<lambda>now.
       let ts = strftime_Ymd_HMS now;
           r_plain = remote_dump db ts ''.sql'';
           r_custom = remote_dump db ts ''.backup'';
           l_plain = local_dump backup_dir db ts ''.sql'';
           l_custom = local_dump backup_dir db ts ''.backup''
       in if truthy container then
            (let c = the container in
             and_then (docker_exec w c (pg_dump_container_cmd user db ''p'' r_plain) [] False) (\<lambda>_.
             and_then (run w (docker_cp_cmd (container_path c r_plain) l_plain) None False) (\<lambda>_.
             and_then (docker_exec w c (rm_cmd r_plain) [] False) (\<lambda>_.
             and_then (docker_exec w c (pg_dump_container_cmd user db ''c'' r_custom) [] False) (\<lambda>_.
             and_then (run w (docker_cp_cmd (container_path c r_custom) l_custom) None False) (\<lambda>_.
             and_then (docker_exec w c (rm_cmd r_custom) [] False) (\<lambda>_. return ())))))))
          else
            (let env = Some [(''PGPASSWORD'', password)] in
             and_then (run w (pg_dump_host_cmd user host port db ''p'' l_plain) env False) (\<lambda>_.
             and_then (run w (pg_dump_host_cmd user host port db ''c'' l_custom) env False)
               (\<lambda>_. return ()))))"

section \<open>Path and quoting helpers of the restore executor\<close>

text \<open>\<open>os.path.basename\<close>: what follows the last slash.\<close>

definition basename :: "string \<Rightarrow> string" where
  "basename p = rev (takeWhile (\<lambda>c. c \<noteq> CHR ''/'') (rev p))"

text \<open>\<open>os.path.splitext(p)[1]\<close>: the extension starts at the last dot of the last path
  component, unless only dots (or nothing) precede that dot in the component.\<close>

definition splitext_ext :: "string \<Rightarrow> string" where
  "splitext_ext p =
     (let name = basename p;
          after = rev (takeWhile (\<lambda>c. c \<noteq> CHR ''.'') (rev name));
          stem = take (length name - length after - 1) name
      in if CHR ''.'' \<notin> set name then []
         else if list_all (\<lambda>c. c = CHR ''.'') stem then []
         else CHR ''.'' # after)"

text \<open>\<open>base.split('_', 1)[0]\<close>: what precedes the first underscore.\<close>

definition before_first_underscore :: "string \<Rightarrow> string" where
  "before_first_underscore base = takeWhile (\<lambda>c. c \<noteq> CHR ''_'') base"

text \<open>\<open>shlex.quote\<close>: the empty string becomes two single quotes; a string of letters,
  digits and \<open>_@%+=:,./-\<close> is returned as it is; any other string is wrapped in single quotes,
  each single quote inside replaced by quote, double-quoted quote, quote.\<close>

definition is_shell_safe :: "char \<Rightarrow> bool" where
  "is_shell_safe c \<longleftrightarrow>
     c \<in> set (''abcdefghijklmnopqrstuvwxyz'' @ ''ABCDEFGHIJKLMNOPQRSTUVWXYZ'' @ ''0123456789''
              @ ''_@%+=:,./-'')"

definition shlex_quote :: "string \<Rightarrow> string" where
  "shlex_quote s =
     (if s = [] then [CHR 0x27, CHR 0x27]
      else if list_all is_shell_safe s then s
      else [CHR 0x27]
           @ concat (map (\<lambda>c. if c = CHR 0x27
                                then [CHR 0x27, CHR 0x22, CHR 0x27, CHR 0x22, CHR 0x27]
                                else [c]) s)
           @ [CHR 0x27])"

section \<open>Restore executor (client_restore.py)\<close>

text \<open>The statement \<open>stmt\<close> of \<open>_restore_postgres\<close> and the statement \<open>pre_sql\<close> of
  \<open>_restore_mysql\<close> (the name between backquotes, \<open>CHR 0x60\<close>).\<close>

definition postgres_stmt :: "string \<Rightarrow> string" where
  "postgres_stmt db_name =
     ''DROP DATABASE IF EXISTS '' @ shlex_quote db_name @ ''; CREATE DATABASE ''
     @ shlex_quote db_name @ '';''"

definition mysql_pre_sql :: "string \<Rightarrow> string" where
  "mysql_pre_sql db_name =
     ''DROP DATABASE IF EXISTS '' @ [CHR 0x60] @ db_name @ [CHR 0x60] @ ''; CREATE DATABASE ''
     @ [CHR 0x60] @ db_name @ [CHR 0x60]
     @ '' CHARACTER SET utf8mb4 COLLATE utf8mb4_unicode_ci;''"

definition pg_restore_cmd :: "string \<Rightarrow> string \<Rightarrow> string \<Rightarrow> string \<Rightarrow> string list" where
  "pg_restore_cmd user host port src =
     [''pg_restore'', ''-U'', user, ''-h'', host, ''-p'', port, ''-C'', ''-d'', ''postgres'', src]"

definition psql_stmt_cmd :: "string \<Rightarrow> string \<Rightarrow> string \<Rightarrow> string \<Rightarrow> string list" where
  "psql_stmt_cmd user host port db_name =
     [''psql'', ''-U'', user, ''-h'', host, ''-p'', port, ''-d'', ''postgres'', ''-c'',
      postgres_stmt db_name]"

definition psql_load_cmd :: "string \<Rightarrow> string \<Rightarrow> string \<Rightarrow> string \<Rightarrow> string \<Rightarrow> string list" where
  "psql_load_cmd user host port db_name src =
     [''psql'', ''-U'', user, ''-h'', host, ''-p'', port, ''-d'', db_name, ''-f'', src]"

text \<open>The staged copy \<open>remote\<close> of the dump inside the container, and its removal.\<close>

definition remote_path :: "string \<Rightarrow> string" where
  "remote_path file_path = ''/tmp/restore_'' @ basename file_path"

definition rm_f_cmd :: "string \<Rightarrow> string list" where
  "rm_f_cmd path = [''rm'', ''-f'', path]"

definition restore_postgres ::
  "world \<Rightarrow> string \<Rightarrow> string \<Rightarrow> string \<Rightarrow> string \<Rightarrow> string \<Rightarrow> string \<Rightarrow> string option \<Rightarrow> unit prog" where
  "restore_postgres w db_name file_path user password port host container =
     (let env_vars = [(''PGPASSWORD'', password)];
          ext = splitext_ext file_path
      in if truthy container then
           (let c = the container;
                remote = remote_path file_path
            in and_then (run w (docker_cp_cmd file_path (container_path c remote)) None False) (\<lambda>_.
                 try_finally
                   (if ext = ''.backup'' then
                      and_then (docker_exec w c (pg_restore_cmd user host port remote) env_vars False)
                        (\<lambda>_. return ())
                    else
                      and_then (docker_exec w c (psql_stmt_cmd user host port db_name) env_vars False) (\<lambda>_.
                      and_then (docker_exec w c (psql_load_cmd user host port db_name remote) env_vars False)
                        (\<lambda>_. return ())))
                   (swallow (docker_exec w c (rm_f_cmd remote) [] False))))
         else
           (let env = Some env_vars
            in if ext = ''.backup'' then
                 and_then (run w (pg_restore_cmd user host port file_path) env False) (\<lambda>_. return ())
               else
                 and_then (run w (psql_stmt_cmd user host port db_name) env False) (\<lambda>_.
                 and_then (run w (psql_load_cmd user host port db_name file_path) env False)
                   (\<lambda>_. return ()))))"

definition mysql_drop_create_cmd :: "string \<Rightarrow> string \<Rightarrow> string \<Rightarrow> string \<Rightarrow> string \<Rightarrow> string list" where
  "mysql_drop_create_cmd db_name user password port host =
     (let drop_create_cmd =
            [''mysql'', ''-u'' @ user, ''-p'' @ password, ''-P'' @ port, ''-e'', mysql_pre_sql db_name]
      in if host \<noteq> [] then list_insert 3 (''-h'' @ host) drop_create_cmd else drop_create_cmd)"

text \<open>The shell line that loads the dump: \<open>restore_cmd\<close> of the container branch and
  \<open>_mysql_restore_shell\<close> of the host branch build the same string.\<close>

definition mysql_restore_shell ::
  "string \<Rightarrow> string \<Rightarrow> string \<Rightarrow> string \<Rightarrow> string \<Rightarrow> string \<Rightarrow> string" where
  "mysql_restore_shell user password port host db path =
     ''mysql -u'' @ shlex_quote user @ '' -p'' @ [CHR 0x27] @ password @ [CHR 0x27]
     @ '' -P'' @ shlex_quote port
     @ (if host \<noteq> [] then '' -h'' @ shlex_quote host else [])
     @ '' '' @ shlex_quote db @ '' < '' @ shlex_quote path"

text \<open>The command that loads the dump through a shell (\<open>sh\<close> in the container, \<open>bash\<close>
  on the host).\<close>

definition mysql_load_cmd ::
  "string \<Rightarrow> string \<Rightarrow> string \<Rightarrow> string \<Rightarrow> string \<Rightarrow> string \<Rightarrow> string \<Rightarrow> string list" where
  "mysql_load_cmd shell user password port host db path =
     [shell, ''-c'', mysql_restore_shell user password port host db path]"

definition restore_mysql ::
  "world \<Rightarrow> string \<Rightarrow> string \<Rightarrow> string \<Rightarrow> string \<Rightarrow> string \<Rightarrow> string \<Rightarrow> string option \<Rightarrow> unit prog" where
  "restore_mysql w db_name file_path user password port host container =
     (let drop_create_cmd = mysql_drop_create_cmd db_name user password port host
      in if truthy container then
           (let c = the container in
            and_then (docker_exec w c drop_create_cmd [] False) (\<lambda>_.
              let remote = remote_path file_path in
              and_then (run w (docker_cp_cmd file_path (container_path c remote)) None False) (\<lambda>_.
                try_finally
                  (and_then
                     (docker_exec w c
                        (mysql_load_cmd ''sh'' user password port host db_name remote) [] False)
                     (\<lambda>_. return ()))
                  (swallow (docker_exec w c (rm_f_cmd remote) [] False)))))
         else
           and_then (run w drop_create_cmd None False) (\<lambda>_.
           and_then
             (run w (mysql_load_cmd ''bash'' user password port host db_name file_path) None False)
             (\<lambda>_. return ())))"

section \<open>\<open>restore_database\<close> (client_restore.py)\<close>

text \<open>A configuration entry \<open>db_conf\<close> is a dictionary from strings to strings: a list of
  items with distinct keys, read with \<open>map_of\<close>. \<open>db_conf[k]\<close> raises \<open>KeyError\<close> on a
  missing key; \<open>db_conf.get(k, d)\<close> returns \<open>d\<close>.\<close>

type_synonym db_conf = "(string \<times> string) list"

definition conf_item :: "db_conf \<Rightarrow> string \<Rightarrow> string prog" where
  "conf_item conf k = (case map_of conf k of None \<Rightarrow> raise (KeyError k) | Some v \<Rightarrow> return v)"

definition conf_get :: "db_conf \<Rightarrow> string \<Rightarrow> string \<Rightarrow> string" where
  "conf_get conf k d = (case map_of conf k of None \<Rightarrow> d | Some v \<Rightarrow> v)"

text \<open>\<open>{k: ('***' if k == 'password' else v) for k, v in db_conf.items()}\<close>.\<close>

definition safe_conf :: "db_conf \<Rightarrow> db_conf" where
  "safe_conf conf = map (\<lambda>(k, v). (k, if k = ''password'' then ''***'' else v)) conf"

text \<open>\<open>str.lower()\<close> on ASCII letters.\<close>

definition lower :: "string \<Rightarrow> string" where
  "lower s =
     map (\<lambda>c. case map_of (zip ''ABCDEFGHIJKLMNOPQRSTUVWXYZ'' ''abcdefghijklmnopqrstuvwxyz'') c of
                 None \<Rightarrow> c
               | Some l \<Rightarrow> l) s"

text \<open>The two \<open>except\<close> clauses of \<open>restore_database\<close> around the body of its \<open>try\<close>. The first
  evaluates \<open>stderr.strip()\<close> on the \<open>stderr\<close> of the exception before it logs; on \<open>None\<close>
  that is an \<open>AttributeError\<close>, raised from inside the handler and so caught by neither
  clause. After either handler the function falls through to \<open>return None\<close>.\<close>

definition restore_handlers :: "db_conf \<Rightarrow> string option prog \<Rightarrow> string option prog" where
  "restore_handlers conf body s =
     (case body s of
        (Inl (CalledProcessError rc cmd stderr), s1) \<Rightarrow>
          (case stderr of
             None \<Rightarrow> (Inl (AttributeError ''strip''), s1)
           | Some txt \<Rightarrow>
               and_then (write_log (Err_restore_failed (safe_conf conf) rc cmd (strip txt)))
                 (\<lambda>_. return None) s1)
      | (Inl e, s1) \<Rightarrow> and_then (write_log (Exc_unexpected e)) (\<lambda>_. return None) s1
      | (Inr r, s1) \<Rightarrow> (Inr r, s1))"

text \<open>The body of the \<open>try\<close>. \<open>Inl ()\<close> of the selection stands for the branch that logs
  the unsupported engine and returns.\<close>

definition restore_body ::
  "world \<Rightarrow> ('t::linorder) filesystem \<Rightarrow> string \<Rightarrow> string \<Rightarrow> string \<Rightarrow> string \<Rightarrow> string \<Rightarrow>
   string option \<Rightarrow> string \<Rightarrow> string \<Rightarrow> string option \<Rightarrow> string option prog" where
  "restore_body w fs db_type user password port host container backup_dir target_db file_path =
     (let selected =
            (if \<not> truthy file_path then
               if db_type = ''postgres'' then
                 Inr (choose_latest
                        (list_backup_files fs backup_dir target_db POSTGRES_EXT_PRIORIDAD)
                        POSTGRES_EXT_PRIORIDAD)
               else if db_type = ''mysql'' \<or> db_type = ''mariadb'' then
                 Inr (choose_latest (list_backup_files fs backup_dir target_db MYSQL_EXT) MYSQL_EXT)
               else Inl ()
             else Inr file_path)
      in case selected of
           Inl _ \<Rightarrow> and_then (write_log (Err_unsupported_type db_type)) (\<lambda>_. return None)
         | Inr chosen \<Rightarrow>
             if \<not> truthy chosen then
               and_then (write_log (Err_no_backups target_db backup_dir)) (\<lambda>_. return None)
             else
               and_then (write_log (Info_restoring target_db (the chosen))) (\<lambda>_.
               and_then
                 (if db_type = ''postgres'' then
                    restore_postgres w target_db (the chosen) user password port host container
                  else
                    restore_mysql w target_db (the chosen) user password port host container) (\<lambda>_.
               and_then (write_log (Info_restored target_db)) (\<lambda>_. return chosen))))"

text \<open>\<open>restore_database(db_conf, db=..., file_path=...)\<close>. \<open>init_logging()\<close> only configures
  the handlers and is left out.\<close>

definition restore_database ::
  "world \<Rightarrow> ('t::linorder) filesystem \<Rightarrow> db_conf \<Rightarrow> string option \<Rightarrow> string option \<Rightarrow>
   string option prog" where
  "restore_database w fs conf db file_path =
     (let db_type = lower (conf_get conf ''type'' ''postgres'') in
      and_then (conf_item conf ''username'') (\<lambda>user.
      and_then (conf_item conf ''password'') (\<lambda>password.
        let port = conf_get conf ''port'' (if db_type = ''postgres'' then ''5432'' else ''3306'');
            host = conf_get conf ''host'' ''127.0.0.1'';
            container = map_of conf ''container'';
            backup_dir = conf_get conf ''backup_dir'' ''./'';
            target_db = (if truthy db then db else map_of conf ''db'')
        in if \<not> truthy target_db \<and> \<not> truthy file_path then
             and_then (write_log Err_need_db_or_file) (\<lambda>_. return None)
           else
             (let target_db =
                    (if \<not> truthy target_db \<and> truthy file_path then
                       before_first_underscore (basename (the file_path))
                     else the target_db)
              in restore_handlers conf
                   (restore_body w fs db_type user password port host container backup_dir
                      target_db file_path)))))"

section \<open>Observations on a run\<close>

text \<open>The commands of a trace, in the order they were started.\<close>

definition commands :: "state \<Rightarrow> string list list" where
  "commands s = map (\<lambda>(c, out). argv c) (trace s)"

text \<open>A call succeeded when its process exited with return code 0.\<close>

fun succeeded :: "outcome \<Rightarrow> bool" where
  "succeeded (Exited rc so se) = (rc = 0)"
| "succeeded (Spawn_failed m) = False"

text \<open>The local file a command writes, if it writes one: the \<open>-f\<close> target (the last
  argument) of a \<open>pg_dump\<close> started on the host, and the destination of a \<open>docker cp\<close>. The
  artifacts of a trace are the files written by its succeeded calls.\<close>

definition local_output :: "string list \<Rightarrow> string option" where
  "local_output a =
     (if take 1 a = [''pg_dump''] then Some (last a)
      else if take 2 a = [''docker'', ''cp''] \<and> length a = 4 then Some (a ! 3)
      else None)"

definition artifacts :: "(call \<times> outcome) list \<Rightarrow> string list" where
  "artifacts tr =
     List.map_filter (\<lambda>(c, out). if succeeded out then local_output (argv c) else None) tr"

text \<open>The commands started so far, in order, each with whether it succeeded.\<close>

definition events :: "state \<Rightarrow> (string list \<times> bool) list" where
  "events s = map (\<lambda>(c, out). (argv c, succeeded out)) (trace s)"

text \<open>A block of consecutive calls that capture nothing, each started only when the one
  before it succeeded: the shape of every straight-line block of \<open>run\<close> and \<open>docker_exec\<close>
  statements in the executors.\<close>

fun run_seq :: "world \<Rightarrow> (string list \<times> (string \<times> string) list option) list \<Rightarrow> unit prog" where
  "run_seq w [] = return ()"
| "run_seq w ((cmd, env) # rest) = and_then (run w cmd env False) (\<lambda>_. run_seq w rest)"

text \<open>The events of a block of calls of which the first \<open>k\<close> succeeded: those, then the
  failed one when there is one.\<close>

definition ok_events ::
  "(string list \<times> (string \<times> string) list option) list \<Rightarrow> (string list \<times> bool) list" where
  "ok_events cs = map (\<lambda>c. (fst c, True)) cs"

definition failed_event ::
  "(string list \<times> (string \<times> string) list option) list \<Rightarrow> (string list \<times> bool) list" where
  "failed_event cs = map (\<lambda>c. (fst c, False)) (take 1 cs)"

text \<open>An exception that carries no captured \<open>stderr\<close>: every exception but a
  \<open>CalledProcessError\<close> whose \<open>stderr\<close> is a string.\<close>

fun uncaptured :: "exn \<Rightarrow> bool" where
  "uncaptured (CalledProcessError rc cmd se) = (se = None)"
| "uncaptured (KeyError k) = True"
| "uncaptured (AttributeError a) = True"
| "uncaptured (OSError m) = True"

text \<open>The call \<open>attempt(parts)\<close> makes, and the call of \<open>list_postgres_databases\<close>.\<close>

definition attempt_call :: "string option \<Rightarrow> string list \<Rightarrow> call" where
  "attempt_call container parts =
     \<lparr>argv = (if truthy container then docker_exec_cmd (the container) parts [] else parts),
      call_env = None, capture = True\<rparr>"

definition postgres_list_call :: "string \<Rightarrow> string \<Rightarrow> string \<Rightarrow> string \<Rightarrow> string option \<Rightarrow> call" where
  "postgres_list_call user password port host container =
     (if truthy container then
        \<lparr>argv = docker_exec_cmd (the container)
                 [''psql'', ''-U'', user, ''-d'', ''postgres'', ''-t'', ''-c'', pg_list_query] [],
         call_env = None, capture = True\<rparr>
      else
        \<lparr>argv = [''psql'', ''-U'', user, ''-h'', host, ''-p'', port, ''-d'', ''postgres'', ''-t'',
                 ''-c'', pg_list_query],
         call_env = Some [(''PGPASSWORD'', password)], capture = True\<rparr>)"

text \<open>The statements of a MySQL command string: split at every semicolon that is not
  inside a backquoted identifier.\<close>

fun split_sql :: "bool \<Rightarrow> string \<Rightarrow> string \<Rightarrow> string list" where
  "split_sql quoted cur [] = [rev cur]"
| "split_sql quoted cur (c # cs) =
     (if c = CHR 0x60 then split_sql (\<not> quoted) (c # cur) cs
      else if c = CHR '';'' \<and> \<not> quoted then rev cur # split_sql False [] cs
      else split_sql quoted (c # cur) cs)"

definition mysql_statements :: "string \<Rightarrow> string list" where
  "mysql_statements sql = split_sql False [] sql"

section \<open>Example inputs\<close>

text \<open>A backup directory \<open>/b\<close> holding both dumps of \<open>app\<close> taken on 2025-08-07 at 23:01:17
  and an unrelated file; the plain dump is the more recently modified of the two.\<close>

definition now_example :: datetime where
  "now_example = \<lparr>year = 2025, month = 8, day = 7, hour = 23, minute = 1, second = 17\<rparr>"

definition fs_example :: "nat filesystem" where
  "fs_example =
     \<lparr>fs_listdir =
        [''/b'' \<mapsto> [''app_20250807_230117.sql'', ''app_20250807_230117.backup'', ''notes.txt'']],
      fs_getmtime = (\<lambda>p. if p = ''/b/app_20250807_230117.sql'' then 5 else 3)\<rparr>"

text \<open>Three worlds: every command succeeds; every command exits with code 1; only the
  \<open>rm\<close> commands exit with code 1.\<close>

definition world_ok :: world where
  "world_ok = \<lparr>respond = (\<lambda>h c. Exited 0 [] []), clock = (\<lambda>n. now_example)\<rparr>"

definition world_fail :: world where
  "world_fail = \<lparr>respond = (\<lambda>h c. Exited 1 [] ''error''), clock = (\<lambda>n. now_example)\<rparr>"

definition world_rm_fails :: world where
  "world_rm_fails =
     \<lparr>respond = (\<lambda>h c. if ''rm'' \<in> set (argv c) then Exited 1 [] [] else Exited 0 [] []),
      clock = (\<lambda>n. now_example)\<rparr>"

text \<open>What \<open>mysql -e "SHOW DATABASES;"\<close> prints for a server holding the user databases
  \<open>Database_prod\<close> and \<open>app\<close>: the header line, then one name per line.\<close>

definition mysql_stdout_example :: string where
  "mysql_stdout_example =
     ''Database'' @ [CHR 0x0A] @ ''Database_prod'' @ [CHR 0x0A] @ ''app'' @ [CHR 0x0A]"

text \<open>A world in which no command can be started (the executable is missing).\<close>

definition world_no_binary :: world where
  "world_no_binary =
     \<lparr>respond = (\<lambda>h c. Spawn_failed ''No such file or directory''),
      clock = (\<lambda>n. now_example)\<rparr>"

text \<open>A database name that closes the backquoted identifier and carries a statement of its
  own: \<open>x`; DROP DATABASE shop; -- \<close>.\<close>

definition malicious_name :: string where
  "malicious_name = ''x'' @ [CHR 0x60] @ ''; DROP DATABASE shop; -- ''"

definition conf_example :: db_conf where
  "conf_example =
     [(''type'', ''postgres''), (''username'', ''admin''), (''password'', ''secret''),
      (''backup_dir'', ''/b'')]"

text \<open>The same configuration with a backup directory that does not exist.\<close>

definition conf_missing_dir :: db_conf where
  "conf_missing_dir =
     [(''type'', ''postgres''), (''username'', ''admin''), (''password'', ''secret''),
      (''backup_dir'', ''/missing'')]"

section \<open>Properties of the dedup guard\<close>

lemma has_today_scan_iff:
  "has_today_scan db_name tag exts names \<longleftrightarrow>
     (\<exists>f \<in> set names.
        (if truthy db_name then prefix (the db_name @ ''_'' @ tag) f
         else sublist (''_'' @ tag @ ''_'') f)
        \<and> (\<exists>e \<in> set exts. suffix e f))"
  by (induction names) (auto simp: startswith_def endswith_def contains_def list_ex_iff)

text \<open>
  Claim C1. \<open>_has_today_backup\<close>, called with its default extensions, returns true exactly
  when the directory exists and lists a file name that ends in \<open>.sql\<close> or \<open>.backup\<close> and
  that, when a database name is given (a non-empty string), starts with the name, an
  underscore and today's \<open>YYYYMMDD\<close> tag, and, when no name is given (\<open>None\<close> or the empty
  string), contains the tag between two underscores. It returns false when the directory
  does not exist.
\<close>

theorem has_today_backup_iff:
  "(has_today_backup fs now dir db_name default_extensions \<longleftrightarrow>
     (\<exists>names. fs_listdir fs dir = Some names \<and>
        (\<exists>f \<in> set names.
           (if truthy db_name then prefix (the db_name @ ''_'' @ strftime_Ymd now) f
            else sublist (''_'' @ strftime_Ymd now @ ''_'') f)
           \<and> (suffix ''.sql'' f \<or> suffix ''.backup'' f))))
   \<and> (fs_listdir fs dir = None \<longrightarrow> \<not> has_today_backup fs now dir db_name default_extensions)"
  by (auto simp: has_today_backup_def has_today_scan_iff default_extensions_def
      split: option.splits)

theorem has_today_backup_iff_witness:
  "fs_listdir fs_example ''/missing'' = None
   \<and> \<not> has_today_backup fs_example now_example ''/missing'' (Some ''app'') default_extensions"
proof -
  have h: "fs_listdir fs_example ''/missing'' = None"
    by (simp add: fs_example_def)
  with has_today_backup_iff [of fs_example now_example "''/missing''" "Some ''app''"]
  show ?thesis by blast
qed

section \<open>Properties of the restore selector\<close>

lemma first_with_ext_find: "first_with_ext files ext = find (suffix ext) files"
  by (induction files) (auto simp: endswith_def)

lemma first_with_ext_None:
  "first_with_ext files ext = None \<longleftrightarrow> \<not> (\<exists>f \<in> set files. suffix ext f)"
  by (auto simp: first_with_ext_find find_None_iff)

lemma choose_by_order_find:
  "choose_by_order files pref =
     (case find (\<lambda>ext. \<exists>f \<in> set files. suffix ext f) pref of
        Some ext \<Rightarrow> find (suffix ext) files
      | None \<Rightarrow> None)"
proof (induction pref)
  case Nil
  show ?case by simp
next
  case (Cons ext others)
  show ?case
  proof (cases "first_with_ext files ext")
    case None
    then have "\<not> (\<exists>f \<in> set files. suffix ext f)" by (simp add: first_with_ext_None)
    with None Cons show ?thesis by simp
  next
    case (Some f)
    then have "\<exists>f \<in> set files. suffix ext f"
      using first_with_ext_None[of files ext] by auto
    with Some show ?thesis by (simp add: first_with_ext_find)
  qed
qed

lemma find_suffix_Some:
  "\<exists>f \<in> set files. suffix ext f \<Longrightarrow>
   \<exists>g. find (suffix ext) files = Some g \<and> g \<in> set files \<and> suffix ext g"
  by (induction files) auto

lemma choose_latest_refines:
  assumes ne: "files \<noteq> []"
  shows "choose_latest files pref = choose_latest_spec files pref"
proof -
  from ne obtain newest rest where files: "files = newest # rest" by (cases files) auto
  show ?thesis
  proof (cases "find (\<lambda>ext. \<exists>f \<in> set files. suffix ext f) pref")
    case None
    then show ?thesis
      by (simp add: choose_latest_def choose_latest_spec_def choose_by_order_find files)
  next
    case (Some ext)
    then have "\<exists>f \<in> set files. suffix ext f" by (auto simp: find_Some_iff)
    then obtain g where "find (suffix ext) files = Some g" using find_suffix_Some by blast
    with Some show ?thesis
      by (simp add: choose_latest_def choose_latest_spec_def choose_by_order_find files)
  qed
qed

lemma choose_latest_member:
  assumes ne: "files \<noteq> []"
  shows "\<exists>f. choose_latest files pref = Some f \<and> f \<in> set files"
proof (cases "find (\<lambda>ext. \<exists>f \<in> set files. suffix ext f) pref")
  case None
  with ne show ?thesis by (simp add: choose_latest_refines choose_latest_spec_def)
next
  case (Some ext)
  then have "\<exists>f \<in> set files. suffix ext f" by (auto simp: find_Some_iff)
  then obtain g where "find (suffix ext) files = Some g" "g \<in> set files"
    using find_suffix_Some by blast
  with Some ne show ?thesis by (simp add: choose_latest_refines choose_latest_spec_def)
qed

lemma choose_latest_no_match:
  assumes ne: "files \<noteq> []"
    and no: "\<not> (\<exists>ext \<in> set pref. \<exists>f \<in> set files. suffix ext f)"
  shows "choose_latest files pref = Some (hd files)"
proof -
  from no have "find (\<lambda>ext. \<exists>f \<in> set files. suffix ext f) pref = None"
    by (auto simp: find_None_iff)
  with ne show ?thesis by (simp add: choose_latest_refines choose_latest_spec_def)
qed

lemma sorted_desc_hd:
  "sorted_wrt (\<lambda>a b. (m b :: 't::linorder) \<le> m a) files \<Longrightarrow> g \<in> set files \<Longrightarrow>
   m g \<le> m (hd files)"
  by (cases files) auto

lemma sort_mtime_desc_sorted:
  "sorted_wrt (\<lambda>a b. fs_getmtime fs b \<le> fs_getmtime fs a) (sort_mtime_desc fs files)"
proof -
  have "sorted (map (fs_getmtime fs) (sort_key (fs_getmtime fs) (rev files)))"
    by (rule sorted_sort_key)
  then show ?thesis
    by (simp add: sort_mtime_desc_def sorted_wrt_rev sorted_map)
qed

text \<open>What \<open>_list_backup_files\<close> returns is sorted most recently modified first, so the
  hypothesis of the next theorem holds of every candidate list the code builds.\<close>

lemma list_backup_files_sorted:
  "sorted_wrt (\<lambda>a b. fs_getmtime fs b \<le> fs_getmtime fs a) (list_backup_files fs dir db exts)"
  by (simp add: list_backup_files_def sort_mtime_desc_sorted split: option.splits)

lemma choose_latest_postgres_pair:
  "choose_latest [a @ ''.sql'', a @ ''.backup''] POSTGRES_EXT_PRIORIDAD = Some (a @ ''.backup'')
   \<and> choose_latest [a @ ''.backup'', a @ ''.sql''] POSTGRES_EXT_PRIORIDAD = Some (a @ ''.backup'')"
  by (simp add: choose_latest_def POSTGRES_EXT_PRIORIDAD_def endswith_def suffix_to_prefix)

text \<open>
  Claim C2. On a non-empty candidate list sorted most recently modified first,
  \<open>_choose_latest\<close> returns a candidate of the list, namely the one the specification
  describes: the first candidate ending with the first extension of the preferred order
  that any candidate ends with, wherever that candidate stands in the list; when no
  candidate ends with a preferred extension it returns the head of the list, which no
  candidate is more recent than. For the two PostgreSQL candidates \<open>a.sql\<close> and
  \<open>a.backup\<close> it returns \<open>a.backup\<close> in either order of the list.
\<close>

theorem choose_latest_prefers_extension:
  fixes fs :: "('t::linorder) filesystem"
  assumes "files \<noteq> []"
    and "sorted_wrt (\<lambda>a b. fs_getmtime fs b \<le> fs_getmtime fs a) files"
  shows "choose_latest files pref = choose_latest_spec files pref
     \<and> (\<exists>f \<in> set files. choose_latest files pref = Some f)
     \<and> (\<not> (\<exists>ext \<in> set pref. \<exists>f \<in> set files. suffix ext f) \<longrightarrow>
          choose_latest files pref = Some (hd files)
          \<and> (\<forall>g \<in> set files. fs_getmtime fs g \<le> fs_getmtime fs (hd files)))
     \<and> choose_latest [a @ ''.sql'', a @ ''.backup''] POSTGRES_EXT_PRIORIDAD
         = Some (a @ ''.backup'')
     \<and> choose_latest [a @ ''.backup'', a @ ''.sql''] POSTGRES_EXT_PRIORIDAD
         = Some (a @ ''.backup'')"
proof -
  have refines: "choose_latest files pref = choose_latest_spec files pref"
    using assms(1) by (rule choose_latest_refines)
  have member: "\<exists>f \<in> set files. choose_latest files pref = Some f"
    using choose_latest_member [OF assms(1), of pref] by blast
  have newest: "\<forall>g \<in> set files. fs_getmtime fs g \<le> fs_getmtime fs (hd files)"
    using assms(2) sorted_desc_hd [of "fs_getmtime fs" files] by blast
  have fallback: "\<not> (\<exists>ext \<in> set pref. \<exists>f \<in> set files. suffix ext f) \<longrightarrow>
      choose_latest files pref = Some (hd files)"
    using assms(1) by (blast intro: choose_latest_no_match)
  from refines member newest fallback choose_latest_postgres_pair [of a]
  show ?thesis by blast
qed

theorem choose_latest_prefers_extension_witness:
  "list_backup_files fs_example ''/b'' ''app'' POSTGRES_EXT_PRIORIDAD
     = [''/b/app_20250807_230117.sql'', ''/b/app_20250807_230117.backup'']
   \<and> choose_latest_spec (list_backup_files fs_example ''/b'' ''app'' POSTGRES_EXT_PRIORIDAD)
       POSTGRES_EXT_PRIORIDAD = Some ''/b/app_20250807_230117.backup''
   \<and> choose_latest (list_backup_files fs_example ''/b'' ''app'' POSTGRES_EXT_PRIORIDAD)
       POSTGRES_EXT_PRIORIDAD = Some ''/b/app_20250807_230117.backup''"
proof -
  have files: "list_backup_files fs_example ''/b'' ''app'' POSTGRES_EXT_PRIORIDAD
      = [''/b/app_20250807_230117.sql'', ''/b/app_20250807_230117.backup'']"
    by (simp add: list_backup_files_def fs_example_def POSTGRES_EXT_PRIORIDAD_def
        sort_mtime_desc_def startswith_def endswith_def path_join_def suffix_to_prefix)
  have ne: "list_backup_files fs_example ''/b'' ''app'' POSTGRES_EXT_PRIORIDAD \<noteq> []"
    by (simp add: files)
  have spec: "choose_latest_spec
      [''/b/app_20250807_230117.sql'', ''/b/app_20250807_230117.backup'']
      POSTGRES_EXT_PRIORIDAD = Some ''/b/app_20250807_230117.backup''"
    by (simp add: choose_latest_spec_def POSTGRES_EXT_PRIORIDAD_def suffix_to_prefix)
  from choose_latest_prefers_extension [OF ne list_backup_files_sorted, of POSTGRES_EXT_PRIORIDAD]
  have "choose_latest (list_backup_files fs_example ''/b'' ''app'' POSTGRES_EXT_PRIORIDAD)
      POSTGRES_EXT_PRIORIDAD
      = choose_latest_spec (list_backup_files fs_example ''/b'' ''app'' POSTGRES_EXT_PRIORIDAD)
          POSTGRES_EXT_PRIORIDAD"
    by blast
  with files spec show ?thesis by simp
qed

section \<open>Properties of the database enumerator\<close>

lemma attempt_eq:
  "attempt w container parts s =
     (let c = attempt_call container parts;
          out = respond w (map fst (trace s)) c;
          s' = s\<lparr>trace := trace s @ [(c, out)]\<rparr>
      in case out of
           Spawn_failed m \<Rightarrow> (Inl (OSError m), s')
         | Exited rc so se \<Rightarrow>
             if rc \<noteq> 0 then (Inl (CalledProcessError rc (argv c) (Some se)), s')
             else (Inr (Some so), s'))"
  by (simp add: attempt_def attempt_call_def docker_exec_def run_def Let_def
      split: outcome.splits)

lemma without_host_flag_base:
  "without_host_flag (mysql_base_parts user password port host container) =
     (if truthy container then
        [''mysql'', ''-u'' @ user, ''-p'' @ password, ''-e'', mysql_list_query]
      else [''mysql'', ''-u'' @ user, ''-p'' @ password, ''-P'' @ port, ''-e'', mysql_list_query])"
  by (simp add: without_host_flag_def mysql_base_parts_def list_insert_def startswith_def
      mysql_list_query_def Let_def)

lemma no_host_flag_left:
  "\<not> list_ex (\<lambda>p. startswith p ''-h'')
      (without_host_flag (mysql_base_parts user password port host container))"
  by (simp add: without_host_flag_base startswith_def mysql_list_query_def)

lemma list_mysql_databases_after_failure:
  assumes "respond w (map fst (trace s))
             (attempt_call container (mysql_base_parts user password port host container))
           = Exited rc so se"
    and "rc \<noteq> 0"
  shows "map fst (trace (snd (list_mysql_databases w user password port host container s)))
       = map fst (trace s)
         @ [attempt_call container (mysql_base_parts user password port host container),
            attempt_call container
              (without_host_flag (mysql_base_parts user password port host container))]
    \<and> fst (list_mysql_databases w user password port host container s)
       = (case respond w
                 (map fst (trace s)
                  @ [attempt_call container (mysql_base_parts user password port host container)])
                 (attempt_call container
                    (without_host_flag (mysql_base_parts user password port host container))) of
            Exited rc2 so2 se2 \<Rightarrow>
              if rc2 \<noteq> 0 then
                Inl (CalledProcessError rc2
                  (argv (attempt_call container
                     (without_host_flag (mysql_base_parts user password port host container))))
                  (Some se2))
              else Inr (mysql_names so2)
          | Spawn_failed m \<Rightarrow> Inl (OSError m))"
  using assms
  by (simp add: list_mysql_databases_def attempt_eq Let_def and_then_def write_log_def
      stdout_lines_def return_def raise_def split: outcome.splits)

lemma list_postgres_databases_once:
  "map fst (trace (snd (list_postgres_databases w user password port host container s)))
       = map fst (trace s) @ [postgres_list_call user password port host container]
   \<and> fst (list_postgres_databases w user password port host container s)
       = (case respond w (map fst (trace s))
                 (postgres_list_call user password port host container) of
            Exited rc so se \<Rightarrow>
              if rc \<noteq> 0 then
                Inl (CalledProcessError rc
                  (argv (postgres_list_call user password port host container)) (Some se))
              else Inr (postgres_names so)
          | Spawn_failed m \<Rightarrow> Inl (OSError m))"
  by (simp add: list_postgres_databases_def postgres_list_call_def docker_exec_def run_def
      Let_def and_then_def stdout_lines_def return_def raise_def split: outcome.splits)

text \<open>
  Claim C5. When the first \<open>SHOW DATABASES\<close> call of \<open>list_mysql_databases\<close> exits with a
  non-zero code, the function makes exactly one more call, whose command is the first one
  with every \<open>-h<host>\<close> argument filtered out (no argument starting with \<open>-h\<close> is left);
  when that call exits with a non-zero code too, its \<open>CalledProcessError\<close> is what the
  function raises, and when it succeeds the names are read from its output.
  \<open>list_postgres_databases\<close> makes exactly one call whatever the outcome, and a non-zero
  exit of it is raised as it is.
\<close>

theorem list_mysql_databases_retries_once:
  assumes "respond w (map fst (trace s))
             (attempt_call container (mysql_base_parts user password port host container))
           = Exited rc so se"
    and "rc \<noteq> 0"
  shows "map fst (trace (snd (list_mysql_databases w user password port host container s)))
       = map fst (trace s)
         @ [attempt_call container (mysql_base_parts user password port host container),
            attempt_call container
              (without_host_flag (mysql_base_parts user password port host container))]
    \<and> fst (list_mysql_databases w user password port host container s)
       = (case respond w
                 (map fst (trace s)
                  @ [attempt_call container (mysql_base_parts user password port host container)])
                 (attempt_call container
                    (without_host_flag (mysql_base_parts user password port host container))) of
            Exited rc2 so2 se2 \<Rightarrow>
              if rc2 \<noteq> 0 then
                Inl (CalledProcessError rc2
                  (argv (attempt_call container
                     (without_host_flag (mysql_base_parts user password port host container))))
                  (Some se2))
              else Inr (mysql_names so2)
          | Spawn_failed m \<Rightarrow> Inl (OSError m))
    \<and> without_host_flag (mysql_base_parts user password port host container)
       = (if truthy container then
            [''mysql'', ''-u'' @ user, ''-p'' @ password, ''-e'', mysql_list_query]
          else [''mysql'', ''-u'' @ user, ''-p'' @ password, ''-P'' @ port, ''-e'',
                mysql_list_query])
    \<and> \<not> list_ex (\<lambda>p. startswith p ''-h'')
          (without_host_flag (mysql_base_parts user password port host container))
    \<and> map fst (trace (snd (list_postgres_databases w user password port host container s)))
       = map fst (trace s) @ [postgres_list_call user password port host container]
    \<and> fst (list_postgres_databases w user password port host container s)
       = (case respond w (map fst (trace s))
                 (postgres_list_call user password port host container) of
            Exited rc1 so1 se1 \<Rightarrow>
              if rc1 \<noteq> 0 then
                Inl (CalledProcessError rc1
                  (argv (postgres_list_call user password port host container)) (Some se1))
              else Inr (postgres_names so1)
          | Spawn_failed m \<Rightarrow> Inl (OSError m))"
  using list_mysql_databases_after_failure [OF assms] without_host_flag_base no_host_flag_left
    list_postgres_databases_once
  by blast

theorem list_mysql_databases_retries_once_witness:
  "commands (snd (list_mysql_databases world_fail ''admin'' ''secret'' ''3306'' ''db.local'' None
      init_state))
     = [[''mysql'', ''-uadmin'', ''-psecret'', ''-hdb.local'', ''-P3306'', ''-e'', ''SHOW DATABASES;''],
        [''mysql'', ''-uadmin'', ''-psecret'', ''-P3306'', ''-e'', ''SHOW DATABASES;'']]
   \<and> fst (list_mysql_databases world_fail ''admin'' ''secret'' ''3306'' ''db.local'' None init_state)
     = Inl (CalledProcessError 1
         [''mysql'', ''-uadmin'', ''-psecret'', ''-P3306'', ''-e'', ''SHOW DATABASES;'']
         (Some ''error''))"
proof -
  let ?run = "list_mysql_databases world_fail ''admin'' ''secret'' ''3306'' ''db.local'' None
      init_state"
  have world: "\<And>h c. respond world_fail h c = Exited 1 [] ''error''"
    by (simp add: world_fail_def)
  have nonzero: "(1::int) \<noteq> 0" by simp
  have base: "mysql_base_parts ''admin'' ''secret'' ''3306'' ''db.local'' None
      = [''mysql'', ''-uadmin'', ''-psecret'', ''-hdb.local'', ''-P3306'', ''-e'', ''SHOW DATABASES;'']"
    by (simp add: mysql_base_parts_def list_insert_def mysql_list_query_def)
  have retry: "without_host_flag
      [''mysql'', ''-uadmin'', ''-psecret'', ''-hdb.local'', ''-P3306'', ''-e'', ''SHOW DATABASES;'']
      = [''mysql'', ''-uadmin'', ''-psecret'', ''-P3306'', ''-e'', ''SHOW DATABASES;'']"
    by (simp add: without_host_flag_def startswith_def)
  have first: "respond world_fail (map fst (trace init_state))
      (attempt_call None (mysql_base_parts ''admin'' ''secret'' ''3306'' ''db.local'' None))
      = Exited 1 [] ''error''"
    by (rule world)
  note inst = list_mysql_databases_retries_once [OF first nonzero]
  from inst have calls: "map fst (trace (snd ?run))
      = [attempt_call None
           [''mysql'', ''-uadmin'', ''-psecret'', ''-hdb.local'', ''-P3306'', ''-e'', ''SHOW DATABASES;''],
         attempt_call None
           [''mysql'', ''-uadmin'', ''-psecret'', ''-P3306'', ''-e'', ''SHOW DATABASES;'']]"
    by (simp add: base retry init_state_def)
  from inst have result: "fst ?run
      = Inl (CalledProcessError 1
          (argv (attempt_call None
             [''mysql'', ''-uadmin'', ''-psecret'', ''-P3306'', ''-e'', ''SHOW DATABASES;'']))
          (Some ''error''))"
    by (simp add: base retry world)
  have "commands (snd ?run) = map argv (map fst (trace (snd ?run)))"
    by (simp add: commands_def case_prod_unfold comp_def)
  with calls result show ?thesis
    by (simp add: attempt_call_def)
qed

section \<open>What the enumerators keep and drop\<close>

lemma postgres_names_exclude: "''postgres'' \<notin> set (postgres_names out)"
  by (auto simp: postgres_names_def POSTGRES_EXCLUDE_def)

lemma mysql_names_exclude: "set (mysql_names out) \<inter> MYSQL_EXCLUDE = {}"
  by (auto simp: mysql_names_def)

text \<open>
  Claim C9. The PostgreSQL list never holds \<open>postgres\<close> and the MySQL list never holds a
  name of \<open>MYSQL_EXCLUDE\<close> (the two lemmas above). The header-stripping test of
  \<open>list_mysql_databases\<close>, \<open>d.startswith("Database")\<close>, removes more than the header line:
  on the output of a server that holds the user databases \<open>Database_prod\<close> and \<open>app\<close> the
  function returns \<open>app\<close> alone.
\<close>

theorem mysql_names_drops_user_database:
  "mysql_names mysql_stdout_example = [''app'']
   \<and> splitlines mysql_stdout_example = [''Database'', ''Database_prod'', ''app'']"
  by (simp add: mysql_names_def mysql_stdout_example_def splitlines_def is_linebreak_def
      strip_def is_space_def startswith_def MYSQL_EXCLUDE_def)

section \<open>How blocks of calls unfold\<close>

lemma run_effect:
  "\<exists>out. snd (run w cmd env capt s)
           = s\<lparr>trace := trace s @ [(\<lparr>argv = cmd, call_env = env, capture = capt\<rparr>, out)]\<rparr>
         \<and> (succeeded out \<longrightarrow> (\<exists>x. fst (run w cmd env capt s) = Inr x))
         \<and> (\<not> succeeded out \<longrightarrow> (\<exists>e. fst (run w cmd env capt s) = Inl e))"
  by (cases "respond w (map fst (trace s)) \<lparr>argv = cmd, call_env = env, capture = capt\<rparr>")
     (auto simp: run_def Let_def)

lemma and_then_Inl: "fst (m s) = Inl e \<Longrightarrow> and_then m f s = (Inl e, snd (m s))"
  by (cases "m s") (simp add: and_then_def)

lemma and_then_Inr: "fst (m s) = Inr x \<Longrightarrow> and_then m f s = f x (snd (m s))"
  by (cases "m s") (simp add: and_then_def)

lemma run_seq_shape:
  "\<exists>k \<le> length cs.
      events (snd (run_seq w cs s))
        = events s @ ok_events (take k cs) @ failed_event (drop k cs)
    \<and> artifacts (trace (snd (run_seq w cs s)))
        = artifacts (trace s) @ List.map_filter (\<lambda>c. local_output (fst c)) (take k cs)
    \<and> (fst (run_seq w cs s) = Inr ()) = (k = length cs)
    \<and> log (snd (run_seq w cs s)) = log s
    \<and> reads (snd (run_seq w cs s)) = reads s"
proof (induction cs arbitrary: s)
  case Nil
  show ?case by (simp add: return_def ok_events_def failed_event_def)
next
  case (Cons c rest)
  obtain cmd env where c: "c = (cmd, env)" by (cases c)
  from run_effect [of w cmd env False s] obtain out where
    st: "snd (run w cmd env False s)
         = s\<lparr>trace := trace s @ [(\<lparr>argv = cmd, call_env = env, capture = False\<rparr>, out)]\<rparr>"
    and ok: "succeeded out \<longrightarrow> (\<exists>x. fst (run w cmd env False s) = Inr x)"
    and ko: "\<not> succeeded out \<longrightarrow> (\<exists>e. fst (run w cmd env False s) = Inl e)"
    by blast
  let ?s1 = "snd (run w cmd env False s)"
  show ?case
  proof (cases "succeeded out")
    case False
    with ko obtain e where e: "fst (run w cmd env False s) = Inl e" by blast
    then have r: "and_then (run w cmd env False) (\<lambda>_. run_seq w rest) s = (Inl e, ?s1)"
      by (rule and_then_Inl)
    have "events ?s1 = events s @ [(cmd, False)]"
      using False by (simp add: st events_def)
    moreover have "artifacts (trace ?s1) = artifacts (trace s)"
      using False by (simp add: st artifacts_def map_filter_def)
    moreover have "log ?s1 = log s" "reads ?s1 = reads s" by (simp_all add: st)
    ultimately show ?thesis
      by (intro exI [of _ 0]) (simp add: r c ok_events_def failed_event_def)
  next
    case True
    with ok obtain x where x: "fst (run w cmd env False s) = Inr x" by blast
    then have r: "and_then (run w cmd env False) (\<lambda>_. run_seq w rest) s = run_seq w rest ?s1"
      by (rule and_then_Inr)
    from Cons.IH [of ?s1] obtain k where k: "k \<le> length rest"
      and ev: "events (snd (run_seq w rest ?s1))
                 = events ?s1 @ ok_events (take k rest) @ failed_event (drop k rest)"
      and ar: "artifacts (trace (snd (run_seq w rest ?s1)))
                 = artifacts (trace ?s1) @ List.map_filter (\<lambda>c. local_output (fst c)) (take k rest)"
      and res: "(fst (run_seq w rest ?s1) = Inr ()) = (k = length rest)"
      and lg: "log (snd (run_seq w rest ?s1)) = log ?s1"
      and rd: "reads (snd (run_seq w rest ?s1)) = reads ?s1"
      by blast
    have e1: "events ?s1 = events s @ [(cmd, True)]"
      using True by (simp add: st events_def)
    have a1: "artifacts (trace ?s1)
        = artifacts (trace s) @ List.map_filter (\<lambda>c. local_output (fst c)) [c]"
      using True by (simp add: st artifacts_def map_filter_def c)
    have l1: "log ?s1 = log s" "reads ?s1 = reads s" by (simp_all add: st)
    show ?thesis
      using k ev ar res lg rd
      by (intro exI [of _ "Suc k"])
         (simp add: r c e1 a1 l1 ok_events_def map_filter_def)
  qed
qed

lemma run_seq_one:
  "\<exists>b. events (snd (run_seq w [c] s)) = events s @ [(fst c, b)]
       \<and> (fst (run_seq w [c] s) = Inr ()) = b
       \<and> log (snd (run_seq w [c] s)) = log s \<and> reads (snd (run_seq w [c] s)) = reads s"
proof -
  from run_seq_shape [of "[c]" w s] obtain k where "k \<le> length [c]"
    and "events (snd (run_seq w [c] s)) = events s @ ok_events (take k [c]) @ failed_event (drop k [c])"
    and "(fst (run_seq w [c] s) = Inr ()) = (k = length [c])"
    and "log (snd (run_seq w [c] s)) = log s" and "reads (snd (run_seq w [c] s)) = reads s"
    by blast
  moreover from \<open>k \<le> length [c]\<close> have "k = 0 \<or> k = Suc 0" by auto
  ultimately show ?thesis
    by (auto simp: ok_events_def failed_event_def)
qed

lemma run_seq_two:
  "\<exists>new. events (snd (run_seq w [c, d] s)) = events s @ new
       \<and> (new = [(fst c, False)] \<or> (\<exists>b. new = [(fst c, True), (fst d, b)]))
       \<and> log (snd (run_seq w [c, d] s)) = log s \<and> reads (snd (run_seq w [c, d] s)) = reads s"
proof -
  from run_seq_shape [of "[c, d]" w s] obtain k where "k \<le> length [c, d]"
    and ev: "events (snd (run_seq w [c, d] s))
        = events s @ ok_events (take k [c, d]) @ failed_event (drop k [c, d])"
    and "log (snd (run_seq w [c, d] s)) = log s" and "reads (snd (run_seq w [c, d] s)) = reads s"
    by blast
  moreover from \<open>k \<le> length [c, d]\<close> have "k = 0 \<or> k = Suc 0 \<or> k = 2" by auto
  ultimately show ?thesis
    by (auto simp: ok_events_def failed_event_def)
qed

lemma swallow_run:
  "\<exists>b. events (snd (swallow (run w cmd env capt) s)) = events s @ [(cmd, b)]
       \<and> fst (swallow (run w cmd env capt) s) = Inr ()
       \<and> log (snd (swallow (run w cmd env capt) s)) = log s"
proof -
  from run_effect [of w cmd env capt s] obtain out where
    "snd (run w cmd env capt s)
       = s\<lparr>trace := trace s @ [(\<lparr>argv = cmd, call_env = env, capture = capt\<rparr>, out)]\<rparr>"
    by blast
  then show ?thesis
    by (cases "run w cmd env capt s") (auto simp: swallow_def events_def)
qed

lemma try_finally_swallow:
  "try_finally body (swallow m) s = (fst (body s), snd (swallow m (snd (body s))))"
  by (cases "body s"; cases "m (snd (body s))") (auto simp: try_finally_def swallow_def)

lemma run_event:
  "\<exists>b. events (snd (run w cmd env capt s)) = events s @ [(cmd, b)]
       \<and> (b \<longrightarrow> (\<exists>x. fst (run w cmd env capt s) = Inr x))
       \<and> (\<not> b \<longrightarrow> (\<exists>e. fst (run w cmd env capt s) = Inl e))"
proof -
  from run_effect [of w cmd env capt s] obtain out where
    st: "snd (run w cmd env capt s)
       = s\<lparr>trace := trace s @ [(\<lparr>argv = cmd, call_env = env, capture = capt\<rparr>, out)]\<rparr>"
    and "succeeded out \<longrightarrow> (\<exists>x. fst (run w cmd env capt s) = Inr x)"
    and "\<not> succeeded out \<longrightarrow> (\<exists>e. fst (run w cmd env capt s) = Inl e)"
    by blast
  then show ?thesis
    by (intro exI [of _ "succeeded out"]) (simp add: events_def)
qed

text \<open>The staging pattern of the container restores: copy the dump in, run the body,
  then remove the copy whatever the body did.\<close>

lemma staged_events:
  "\<exists>new. events (snd (and_then (run w cp env capt)
              (\<lambda>_. try_finally (run_seq w body) (swallow (run w rm env' capt'))) s))
          = events s @ new
     \<and> (new = [(cp, False)]
        \<or> (\<exists>k \<le> length body. \<exists>b.
             new = (cp, True) # ok_events (take k body) @ failed_event (drop k body) @ [(rm, b)]))"
proof -
  from run_event [of w cp env capt s] obtain b where
    ev: "events (snd (run w cp env capt s)) = events s @ [(cp, b)]"
    and ok: "b \<longrightarrow> (\<exists>x. fst (run w cp env capt s) = Inr x)"
    and ko: "\<not> b \<longrightarrow> (\<exists>e. fst (run w cp env capt s) = Inl e)"
    by blast
  let ?s1 = "snd (run w cp env capt s)"
  show ?thesis
  proof (cases b)
    case False
    with ko obtain e where "fst (run w cp env capt s) = Inl e" by blast
    then show ?thesis using ev False by (simp add: and_then_Inl)
  next
    case True
    with ok obtain x where "fst (run w cp env capt s) = Inr x" by blast
    then have r: "and_then (run w cp env capt)
        (\<lambda>_. try_finally (run_seq w body) (swallow (run w rm env' capt'))) s
        = try_finally (run_seq w body) (swallow (run w rm env' capt')) ?s1"
      by (rule and_then_Inr)
    from run_seq_shape [of body w ?s1] obtain k where k: "k \<le> length body"
      and body: "events (snd (run_seq w body ?s1))
          = events ?s1 @ ok_events (take k body) @ failed_event (drop k body)"
      by blast
    from swallow_run [of w rm env' capt' "snd (run_seq w body ?s1)"] obtain b' where
      "events (snd (swallow (run w rm env' capt') (snd (run_seq w body ?s1))))
         = events (snd (run_seq w body ?s1)) @ [(rm, b')]"
      by blast
    with body ev True k show ?thesis
      by (auto simp: r try_finally_swallow)
  qed
qed

section \<open>Properties of the backup executor\<close>

lemma and_then_datetime_now:
  "and_then (datetime_now w) f s = f (clock w (reads s)) (s\<lparr>reads := Suc (reads s)\<rparr>)"
  by (simp add: and_then_def datetime_now_def)

lemma strftime_example: "strftime_Ymd_HMS now_example = ''20250807_230117''"
  by (simp add: strftime_Ymd_HMS_def strftime_Ymd_def zero_pad4_def zero_pad2_def digit_def
      now_example_def)

lemma events_reads [simp]: "events (s\<lparr>reads := n\<rparr>) = events s"
  by (simp add: events_def)

lemma map_filter_pairs:
  "List.map_filter (\<lambda>c. f (fst c)) (map (\<lambda>c. (c, e)) xs) = List.map_filter f xs"
  by (induction xs) (simp_all add: map_filter_simps split: option.splits)


text \<open>
  Claim C3, as the code has it. \<open>backup_postgres_db\<close> reads the clock exactly once and
  names every file with that one reading \<open>ts\<close>. The commands it starts are an initial
  part of a fixed list, each started only when the one before it succeeded: on the host,
  \<open>pg_dump -F p -f <dir>/<db>_<ts>.sql\<close> and then \<open>pg_dump -F c -f <dir>/<db>_<ts>.backup\<close>;
  in a container, for the plain format \<open>p\<close> and then for the custom format \<open>c\<close>, the
  \<open>pg_dump\<close> into \<open>/tmp\<close>, the \<open>docker cp\<close> to the local file and the \<open>rm\<close> of the remote
  one. The artifacts produced are an initial part of the list of the two local files;
  and whenever the invocation returns without an exception, every command of the list
  has succeeded and exactly the two artifacts, the plain dump \<open>.sql\<close> and the custom
  archive \<open>.backup\<close>, have been produced.
\<close>

theorem backup_postgres_db_two_artifacts:
  "let ts = strftime_Ymd_HMS (clock w (reads s));
       l_plain = path_join backup_dir (db @ ''_'' @ ts @ ''.sql'');
       l_custom = path_join backup_dir (db @ ''_'' @ ts @ ''.backup'');
       r_plain = ''/tmp/'' @ db @ ''_'' @ ts @ ''.sql'';
       r_custom = ''/tmp/'' @ db @ ''_'' @ ts @ ''.backup'';
       c = the container;
       cmds =
         (if truthy container then
            [[''docker'', ''exec'', c, ''pg_dump'', ''-U'', user, ''-d'', db, ''-F'', ''p'', ''-f'', r_plain],
             [''docker'', ''cp'', c @ '':'' @ r_plain, l_plain],
             [''docker'', ''exec'', c, ''rm'', r_plain],
             [''docker'', ''exec'', c, ''pg_dump'', ''-U'', user, ''-d'', db, ''-F'', ''c'', ''-f'', r_custom],
             [''docker'', ''cp'', c @ '':'' @ r_custom, l_custom],
             [''docker'', ''exec'', c, ''rm'', r_custom]]
          else
            [[''pg_dump'', ''-U'', user, ''-h'', host, ''-p'', port, ''-d'', db, ''-F'', ''p'', ''-f'', l_plain],
             [''pg_dump'', ''-U'', user, ''-h'', host, ''-p'', port, ''-d'', db, ''-F'', ''c'', ''-f'', l_custom]]);
       r = backup_postgres_db w db user password port host backup_dir container s
   in reads (snd r) = Suc (reads s)
      \<and> (\<exists>k \<le> length cmds.
            events (snd r)
              = events s @ map (\<lambda>c. (c, True)) (take k cmds)
                @ map (\<lambda>c. (c, False)) (take 1 (drop k cmds))
            \<and> (fst r = Inr ()) = (k = length cmds))
      \<and> (\<exists>k \<le> 2. artifacts (trace (snd r)) = artifacts (trace s) @ take k [l_plain, l_custom])
      \<and> (fst r = Inr () \<longrightarrow>
            events (snd r) = events s @ map (\<lambda>c. (c, True)) cmds
            \<and> artifacts (trace (snd r)) = artifacts (trace s) @ [l_plain, l_custom])"
proof -
  let ?ts = "strftime_Ymd_HMS (clock w (reads s))"
  let ?lp = "path_join backup_dir (db @ ''_'' @ ?ts @ ''.sql'')"
  let ?lc = "path_join backup_dir (db @ ''_'' @ ?ts @ ''.backup'')"
  let ?rp = "''/tmp/'' @ db @ ''_'' @ ?ts @ ''.sql''"
  let ?rc = "''/tmp/'' @ db @ ''_'' @ ?ts @ ''.backup''"
  let ?c = "the container"
  let ?cmds = "if truthy container then
      [[''docker'', ''exec'', ?c, ''pg_dump'', ''-U'', user, ''-d'', db, ''-F'', ''p'', ''-f'', ?rp],
       [''docker'', ''cp'', ?c @ '':'' @ ?rp, ?lp],
       [''docker'', ''exec'', ?c, ''rm'', ?rp],
       [''docker'', ''exec'', ?c, ''pg_dump'', ''-U'', user, ''-d'', db, ''-F'', ''c'', ''-f'', ?rc],
       [''docker'', ''cp'', ?c @ '':'' @ ?rc, ?lc],
       [''docker'', ''exec'', ?c, ''rm'', ?rc]]
    else
      [[''pg_dump'', ''-U'', user, ''-h'', host, ''-p'', port, ''-d'', db, ''-F'', ''p'', ''-f'', ?lp],
       [''pg_dump'', ''-U'', user, ''-h'', host, ''-p'', port, ''-d'', db, ''-F'', ''c'', ''-f'', ?lc]]"
  let ?env = "if truthy container then None else Some [(''PGPASSWORD'', password)]"
  let ?cs = "map (\<lambda>c. (c, ?env)) ?cmds"
  let ?s1 = "s\<lparr>reads := Suc (reads s)\<rparr>"
  let ?r = "backup_postgres_db w db user password port host backup_dir container s"
  have unfold: "?r = run_seq w ?cs ?s1"
    by (simp add: backup_postgres_db_def and_then_datetime_now Let_def docker_exec_def
        docker_exec_cmd_def pg_dump_container_cmd_def pg_dump_host_cmd_def docker_cp_cmd_def
        container_path_def rm_cmd_def remote_dump_def local_dump_def dump_name_def)
  have fsts: "map fst ?cs = ?cmds" by (simp add: comp_def)
  have len: "length ?cs = length ?cmds" by simp
  from run_seq_shape [of ?cs w ?s1] obtain k where k: "k \<le> length ?cs"
    and ev: "events (snd (run_seq w ?cs ?s1))
        = events ?s1 @ ok_events (take k ?cs) @ failed_event (drop k ?cs)"
    and ar: "artifacts (trace (snd (run_seq w ?cs ?s1)))
        = artifacts (trace ?s1) @ List.map_filter (\<lambda>c. local_output (fst c)) (take k ?cs)"
    and res: "(fst (run_seq w ?cs ?s1) = Inr ()) = (k = length ?cs)"
    and rd: "reads (snd (run_seq w ?cs ?s1)) = reads ?s1"
    by blast
  have k': "k \<le> length ?cmds" using k by simp
  have reads: "reads (snd ?r) = Suc (reads s)"
    using rd by (simp only: unfold) simp
  have oks: "ok_events (take k ?cs) = map (\<lambda>c. (c, True)) (take k ?cmds)"
    by (simp add: ok_events_def take_map comp_def)
  have kos: "failed_event (drop k ?cs) = map (\<lambda>c. (c, False)) (take 1 (drop k ?cmds))"
    by (simp add: failed_event_def take_map drop_map comp_def)
  have events: "events (snd ?r) = events s @ map (\<lambda>c. (c, True)) (take k ?cmds)
      @ map (\<lambda>c. (c, False)) (take 1 (drop k ?cmds))"
    using ev by (simp only: unfold oks kos events_reads)
  have result: "(fst ?r = Inr ()) = (k = length ?cmds)"
    using res by (simp only: unfold len)
  have outputs: "List.map_filter (\<lambda>c. local_output (fst c)) (take k ?cs)
      = List.map_filter local_output (take k ?cmds)"
    by (simp only: take_map map_filter_pairs)
  have files: "\<exists>j \<le> 2. List.map_filter local_output (take k ?cmds) = take j [?lp, ?lc]
      \<and> (k = length ?cmds \<longrightarrow> j = 2)"
  proof (cases "truthy container")
    case False
    with k' have "k = 0 \<or> k = Suc 0 \<or> k = 2" by auto
    then show ?thesis
      using False
      by (elim disjE; intro exI [of _ k]) (simp_all add: map_filter_simps local_output_def)
  next
    case True
    with k' have "k = 0 \<or> k = Suc 0 \<or> k = 2 \<or> k = 3 \<or> k = 4 \<or> k = 5 \<or> k = 6" by auto
    moreover have "k = 0 \<or> k = Suc 0 \<Longrightarrow> ?thesis"
      using True by (intro exI [of _ 0]) (auto simp: map_filter_simps local_output_def)
    moreover have "k = 2 \<or> k = 3 \<or> k = 4 \<Longrightarrow> ?thesis"
      using True by (intro exI [of _ 1]) (auto simp: map_filter_simps local_output_def)
    moreover have "k = 5 \<or> k = 6 \<Longrightarrow> ?thesis"
      using True by (intro exI [of _ 2]) (auto simp: map_filter_simps local_output_def)
    ultimately show ?thesis by blast
  qed
  then obtain j where j: "j \<le> 2"
    and fj: "List.map_filter local_output (take k ?cmds) = take j [?lp, ?lc]"
    and full: "k = length ?cmds \<longrightarrow> j = 2"
    by blast
  have arts: "artifacts (trace (snd ?r)) = artifacts (trace s) @ take j [?lp, ?lc]"
    using ar fj by (simp only: unfold outputs) simp
  have part2: "\<exists>k \<le> length ?cmds.
      events (snd ?r) = events s @ map (\<lambda>c. (c, True)) (take k ?cmds)
        @ map (\<lambda>c. (c, False)) (take 1 (drop k ?cmds))
      \<and> (fst ?r = Inr ()) = (k = length ?cmds)"
    using k' events result by blast
  have part3: "\<exists>k \<le> 2. artifacts (trace (snd ?r)) = artifacts (trace s) @ take k [?lp, ?lc]"
    using j arts by blast
  have part4: "fst ?r = Inr () \<longrightarrow>
      events (snd ?r) = events s @ map (\<lambda>c. (c, True)) ?cmds
      \<and> artifacts (trace (snd ?r)) = artifacts (trace s) @ [?lp, ?lc]"
  proof
    assume "fst ?r = Inr ()"
    with result have kk: "k = length ?cmds" by simp
    with full have "j = 2" by simp
    with arts have a: "artifacts (trace (snd ?r)) = artifacts (trace s) @ [?lp, ?lc]" by simp
    from events kk have "events (snd ?r) = events s @ map (\<lambda>c. (c, True)) ?cmds" by simp
    with a show "events (snd ?r) = events s @ map (\<lambda>c. (c, True)) ?cmds
      \<and> artifacts (trace (snd ?r)) = artifacts (trace s) @ [?lp, ?lc]" by simp
  qed
  from reads part2 part3 part4 show ?thesis
    unfolding Let_def by (intro conjI)
qed

theorem backup_postgres_db_two_artifacts_witness:
  "fst (backup_postgres_db world_ok ''app'' ''admin'' ''secret'' ''5432'' ''127.0.0.1'' ''/b'' None
         init_state) = Inr ()
   \<and> events (snd (backup_postgres_db world_ok ''app'' ''admin'' ''secret'' ''5432''
         ''127.0.0.1'' ''/b'' None init_state))
     = [([''pg_dump'', ''-U'', ''admin'', ''-h'', ''127.0.0.1'', ''-p'', ''5432'', ''-d'', ''app'',
          ''-F'', ''p'', ''-f'', ''/b/app_20250807_230117.sql''], True),
        ([''pg_dump'', ''-U'', ''admin'', ''-h'', ''127.0.0.1'', ''-p'', ''5432'', ''-d'', ''app'',
          ''-F'', ''c'', ''-f'', ''/b/app_20250807_230117.backup''], True)]
   \<and> artifacts (trace (snd (backup_postgres_db world_ok ''app'' ''admin'' ''secret'' ''5432''
         ''127.0.0.1'' ''/b'' None init_state)))
     = [''/b/app_20250807_230117.sql'', ''/b/app_20250807_230117.backup'']"
proof -
  have returns: "fst (backup_postgres_db world_ok ''app'' ''admin'' ''secret'' ''5432''
      ''127.0.0.1'' ''/b'' None init_state) = Inr ()"
    by (simp add: backup_postgres_db_def and_then_def datetime_now_def run_def Let_def
        world_ok_def init_state_def return_def)
  have clock: "clock world_ok (reads init_state) = now_example"
    by (simp add: world_ok_def)
  have start: "artifacts (trace init_state) = []" "events init_state = []"
    by (simp_all add: init_state_def artifacts_def events_def map_filter_simps)
  have paths:
    "path_join ''/b'' ''app_20250807_230117.sql'' = ''/b/app_20250807_230117.sql''"
    "path_join ''/b'' ''app_20250807_230117.backup'' = ''/b/app_20250807_230117.backup''"
    by (simp_all add: path_join_def startswith_def endswith_def suffix_to_prefix)
  from backup_postgres_db_two_artifacts [of world_ok init_state "''/b''" "''app''" None
      "''admin''" "''127.0.0.1''" "''5432''" "''secret''"] returns
  show ?thesis
    by (simp add: Let_def clock start strftime_example paths)
qed

text \<open>The claim as it is stated fails when a dump command fails: on the host, with a
  \<open>pg_dump\<close> that exits with code 1, the invocation raises and produces no artifact.\<close>

theorem backup_postgres_db_failed_dump_counterexample:
  "fst (backup_postgres_db world_fail ''app'' ''admin'' ''secret'' ''5432'' ''127.0.0.1'' ''/b'' None
         init_state)
     = Inl (CalledProcessError 1
         [''pg_dump'', ''-U'', ''admin'', ''-h'', ''127.0.0.1'', ''-p'', ''5432'', ''-d'', ''app'',
          ''-F'', ''p'', ''-f'', ''/b/app_20250807_230117.sql''] None)
   \<and> artifacts (trace (snd (backup_postgres_db world_fail ''app'' ''admin'' ''secret'' ''5432''
         ''127.0.0.1'' ''/b'' None init_state))) = []"
  by (simp add: backup_postgres_db_def and_then_def datetime_now_def run_def Let_def
      world_fail_def strftime_example init_state_def local_dump_def dump_name_def path_join_def
      startswith_def endswith_def pg_dump_host_cmd_def artifacts_def map_filter_simps
      suffix_to_prefix)

text \<open>
  Claim C7. In the container branch of \<open>backup_postgres_db\<close> the removal of the remote
  dump is an ordinary \<open>docker_exec\<close> outside any \<open>try\<close>: when \<open>rm\<close> exits with code 1 after
  the plain dump was copied out, its \<open>CalledProcessError\<close> leaves the function, and the
  archive dump is never taken, so one artifact exists instead of two. The restore
  executor wraps the same step in \<open>try ... except Exception: pass\<close>: in the same world
  \<open>_restore_postgres\<close> returns normally.
\<close>

theorem backup_postgres_db_cleanup_failure_propagates:
  "fst (backup_postgres_db world_rm_fails ''app'' ''admin'' ''secret'' ''5432'' ''127.0.0.1'' ''/b''
         (Some ''pg'') init_state)
     = Inl (CalledProcessError 1
         [''docker'', ''exec'', ''pg'', ''rm'', ''/tmp/app_20250807_230117.sql''] None)
   \<and> artifacts (trace (snd (backup_postgres_db world_rm_fails ''app'' ''admin'' ''secret'' ''5432''
         ''127.0.0.1'' ''/b'' (Some ''pg'') init_state))) = [''/b/app_20250807_230117.sql'']
   \<and> fst (restore_postgres world_rm_fails ''app'' ''/b/app_20250807_230117.backup'' ''admin''
         ''secret'' ''5432'' ''127.0.0.1'' (Some ''pg'') init_state) = Inr ()"
  by (simp add: backup_postgres_db_def restore_postgres_def and_then_def datetime_now_def
      run_def Let_def docker_exec_def docker_exec_cmd_def try_finally_def swallow_def return_def
      world_rm_fails_def strftime_example init_state_def local_dump_def remote_dump_def
      dump_name_def path_join_def startswith_def endswith_def pg_dump_container_cmd_def
      docker_cp_cmd_def container_path_def rm_cmd_def rm_f_cmd_def remote_path_def basename_def
      pg_restore_cmd_def splitext_ext_def artifacts_def map_filter_simps local_output_def
      suffix_to_prefix)

section \<open>Properties of the restore executor\<close>

text \<open>Every possible sequence of commands of \<open>_restore_mysql\<close> and of \<open>_restore_postgres\<close>,
  each command with whether it succeeded.\<close>

lemma restore_mysql_events:
  "\<exists>new. events (snd (restore_mysql w db_name file_path user password port host container s))
            = events s @ new
     \<and> (if truthy container then
           new = [(docker_exec_cmd (the container)
                     (mysql_drop_create_cmd db_name user password port host) [], False)]
           \<or> new = [(docker_exec_cmd (the container)
                        (mysql_drop_create_cmd db_name user password port host) [], True),
                     (docker_cp_cmd file_path
                        (container_path (the container) (remote_path file_path)), False)]
           \<or> (\<exists>b b'. new =
                 [(docker_exec_cmd (the container)
                     (mysql_drop_create_cmd db_name user password port host) [], True),
                  (docker_cp_cmd file_path
                     (container_path (the container) (remote_path file_path)), True),
                  (docker_exec_cmd (the container)
                     (mysql_load_cmd ''sh'' user password port host db_name (remote_path file_path)) [],
                   b),
                  (docker_exec_cmd (the container) (rm_f_cmd (remote_path file_path)) [], b')])
         else
           new = [(mysql_drop_create_cmd db_name user password port host, False)]
           \<or> (\<exists>b. new =
                 [(mysql_drop_create_cmd db_name user password port host, True),
                  (mysql_load_cmd ''bash'' user password port host db_name file_path, b)]))"
proof (cases "truthy container")
  case False
  have "restore_mysql w db_name file_path user password port host container
      = run_seq w [(mysql_drop_create_cmd db_name user password port host, None),
                   (mysql_load_cmd ''bash'' user password port host db_name file_path, None)]"
    using False by (simp add: restore_mysql_def Let_def)
  with run_seq_two [of w "(mysql_drop_create_cmd db_name user password port host, None)"
      "(mysql_load_cmd ''bash'' user password port host db_name file_path, None)" s]
  show ?thesis using False by auto
next
  case True
  let ?c = "the container"
  let ?remote = "remote_path file_path"
  let ?dc = "docker_exec_cmd ?c (mysql_drop_create_cmd db_name user password port host) []"
  let ?cp = "docker_cp_cmd file_path (container_path ?c ?remote)"
  let ?load = "docker_exec_cmd ?c
      (mysql_load_cmd ''sh'' user password port host db_name ?remote) []"
  let ?rm = "docker_exec_cmd ?c (rm_f_cmd ?remote) []"
  let ?rest = "and_then (run w ?cp None False)
      (\<lambda>_. try_finally (run_seq w [(?load, None)]) (swallow (run w ?rm None False)))"
  have unfold: "restore_mysql w db_name file_path user password port host container
      = and_then (run w ?dc None False) (\<lambda>_. ?rest)"
    using True by (simp add: restore_mysql_def Let_def docker_exec_def)
  from run_event [of w ?dc None False s] obtain b where
    ev: "events (snd (run w ?dc None False s)) = events s @ [(?dc, b)]"
    and ok: "b \<longrightarrow> (\<exists>x. fst (run w ?dc None False s) = Inr x)"
    and ko: "\<not> b \<longrightarrow> (\<exists>e. fst (run w ?dc None False s) = Inl e)"
    by blast
  show ?thesis
  proof (cases b)
    case False
    with ko obtain e where "fst (run w ?dc None False s) = Inl e" by blast
    then have "and_then (run w ?dc None False) (\<lambda>_. ?rest) s
        = (Inl e, snd (run w ?dc None False s))"
      by (rule and_then_Inl)
    with ev False True show ?thesis by (simp add: unfold)
  next
    case b: True
    with ok obtain x where "fst (run w ?dc None False s) = Inr x" by blast
    then have r: "and_then (run w ?dc None False) (\<lambda>_. ?rest) s
        = ?rest (snd (run w ?dc None False s))"
      by (rule and_then_Inr)
    from staged_events [of w ?cp None False "[(?load, None)]" ?rm None False
        "snd (run w ?dc None False s)"]
    obtain new where
      new: "events (snd (?rest (snd (run w ?dc None False s))))
          = events (snd (run w ?dc None False s)) @ new"
      and shape: "new = [(?cp, False)]
        \<or> (\<exists>k \<le> length [(?load, None :: (string \<times> string) list option)]. \<exists>b.
             new = (?cp, True) # ok_events (take k [(?load, None)])
                   @ failed_event (drop k [(?load, None)]) @ [(?rm, b)])"
      by blast
    from shape have shape': "new = [(?cp, False)]
        \<or> (\<exists>b b'. new = [(?cp, True), (?load, b), (?rm, b')])"
      by (auto simp: ok_events_def failed_event_def le_Suc_eq)
    have total: "events (snd (restore_mysql w db_name file_path user password port host container s))
        = events s @ (?dc, True) # new"
      using new ev b by (simp add: unfold r del: run_seq.simps)
    from shape' have "(?dc, True) # new = [(?dc, True), (?cp, False)]
        \<or> (\<exists>b b'. (?dc, True) # new = [(?dc, True), (?cp, True), (?load, b), (?rm, b')])"
      by auto
    with total True show ?thesis
      by (intro exI [of _ "(?dc, True) # new"]) (simp del: run_seq.simps)
  qed
qed

lemma restore_postgres_events:
  "\<exists>new. events (snd (restore_postgres w db_name file_path user password port host container s))
            = events s @ new
     \<and> (if truthy container then
           (if splitext_ext file_path = ''.backup'' then
              new = [(docker_cp_cmd file_path
                        (container_path (the container) (remote_path file_path)), False)]
              \<or> (\<exists>b b'. new =
                    [(docker_cp_cmd file_path
                        (container_path (the container) (remote_path file_path)), True),
                     (docker_exec_cmd (the container)
                        (pg_restore_cmd user host port (remote_path file_path))
                        [(''PGPASSWORD'', password)], b),
                     (docker_exec_cmd (the container) (rm_f_cmd (remote_path file_path)) [], b')])
            else
              new = [(docker_cp_cmd file_path
                        (container_path (the container) (remote_path file_path)), False)]
              \<or> (\<exists>b'. new =
                    [(docker_cp_cmd file_path
                        (container_path (the container) (remote_path file_path)), True),
                     (docker_exec_cmd (the container) (psql_stmt_cmd user host port db_name)
                        [(''PGPASSWORD'', password)], False),
                     (docker_exec_cmd (the container) (rm_f_cmd (remote_path file_path)) [], b')])
              \<or> (\<exists>b b'. new =
                    [(docker_cp_cmd file_path
                        (container_path (the container) (remote_path file_path)), True),
                     (docker_exec_cmd (the container) (psql_stmt_cmd user host port db_name)
                        [(''PGPASSWORD'', password)], True),
                     (docker_exec_cmd (the container)
                        (psql_load_cmd user host port db_name (remote_path file_path))
                        [(''PGPASSWORD'', password)], b),
                     (docker_exec_cmd (the container) (rm_f_cmd (remote_path file_path)) [], b')]))
         else
           (if splitext_ext file_path = ''.backup'' then
              (\<exists>b. new = [(pg_restore_cmd user host port file_path, b)])
            else
              new = [(psql_stmt_cmd user host port db_name, False)]
              \<or> (\<exists>b. new =
                    [(psql_stmt_cmd user host port db_name, True),
                     (psql_load_cmd user host port db_name file_path, b)])))"
proof (cases "truthy container")
  case host: False
  let ?env = "Some [(''PGPASSWORD'', password)]"
  show ?thesis
  proof (cases "splitext_ext file_path = ''.backup''")
    case True
    have "restore_postgres w db_name file_path user password port host container
        = run_seq w [(pg_restore_cmd user host port file_path, ?env)]"
      using host True by (simp add: restore_postgres_def Let_def)
    with run_seq_one [of w "(pg_restore_cmd user host port file_path, ?env)" s]
    show ?thesis using host True by auto
  next
    case False
    have "restore_postgres w db_name file_path user password port host container
        = run_seq w [(psql_stmt_cmd user host port db_name, ?env),
                     (psql_load_cmd user host port db_name file_path, ?env)]"
      using host False by (simp add: restore_postgres_def Let_def)
    with run_seq_two [of w "(psql_stmt_cmd user host port db_name, ?env)"
        "(psql_load_cmd user host port db_name file_path, ?env)" s]
    show ?thesis using host False by auto
  qed
next
  case cont: True
  let ?c = "the container"
  let ?remote = "remote_path file_path"
  let ?ev = "[(''PGPASSWORD'', password)]"
  let ?cp = "docker_cp_cmd file_path (container_path ?c ?remote)"
  let ?rm = "docker_exec_cmd ?c (rm_f_cmd ?remote) []"
  show ?thesis
  proof (cases "splitext_ext file_path = ''.backup''")
    case True
    let ?body = "[(docker_exec_cmd ?c (pg_restore_cmd user host port ?remote) ?ev,
                   None :: (string \<times> string) list option)]"
    have unfold: "restore_postgres w db_name file_path user password port host container
        = and_then (run w ?cp None False)
            (\<lambda>_. try_finally (run_seq w ?body) (swallow (run w ?rm None False)))"
      using cont True by (simp add: restore_postgres_def Let_def docker_exec_def)
    from staged_events [of w ?cp None False ?body ?rm None False s]
    obtain new where
      new: "events (snd (restore_postgres w db_name file_path user password port host container s))
          = events s @ new"
      and shape: "new = [(?cp, False)]
        \<or> (\<exists>k \<le> length ?body. \<exists>b.
             new = (?cp, True) # ok_events (take k ?body) @ failed_event (drop k ?body) @ [(?rm, b)])"
      unfolding unfold by blast
    from shape have "new = [(?cp, False)]
        \<or> (\<exists>b b'. new = [(?cp, True),
              (docker_exec_cmd ?c (pg_restore_cmd user host port ?remote) ?ev, b), (?rm, b')])"
      by (auto simp: ok_events_def failed_event_def le_Suc_eq)
    with new cont True show ?thesis
      by (intro exI [of _ new]) simp
  next
    case False
    let ?stmt = "docker_exec_cmd ?c (psql_stmt_cmd user host port db_name) ?ev"
    let ?load = "docker_exec_cmd ?c (psql_load_cmd user host port db_name ?remote) ?ev"
    let ?body = "[(?stmt, None :: (string \<times> string) list option), (?load, None)]"
    have unfold: "restore_postgres w db_name file_path user password port host container
        = and_then (run w ?cp None False)
            (\<lambda>_. try_finally (run_seq w ?body) (swallow (run w ?rm None False)))"
      using cont False by (simp add: restore_postgres_def Let_def docker_exec_def)
    from staged_events [of w ?cp None False ?body ?rm None False s]
    obtain new where
      new: "events (snd (restore_postgres w db_name file_path user password port host container s))
          = events s @ new"
      and shape: "new = [(?cp, False)]
        \<or> (\<exists>k \<le> length ?body. \<exists>b.
             new = (?cp, True) # ok_events (take k ?body) @ failed_event (drop k ?body) @ [(?rm, b)])"
      unfolding unfold by blast
    from shape have "new = [(?cp, False)]
        \<or> (\<exists>b'. new = [(?cp, True), (?stmt, False), (?rm, b')])
        \<or> (\<exists>b b'. new = [(?cp, True), (?stmt, True), (?load, b), (?rm, b')])"
      by (auto simp: ok_events_def failed_event_def le_Suc_eq)
    with new cont False show ?thesis
      by (intro exI [of _ new]) simp
  qed
qed

text \<open>
  Claim C4. Whatever the outside world answers, \<open>_restore_mysql\<close> starts with the command
  that carries \<open>DROP DATABASE IF EXISTS ...; CREATE DATABASE ... CHARACTER SET utf8mb4\<close>,
  and the command that loads the dump is started only after that one succeeded (in a
  container, after the copy of the dump succeeded too). \<open>_restore_postgres\<close> on a file
  whose extension is not \<open>.backup\<close> issues \<open>DROP DATABASE IF EXISTS ...; CREATE DATABASE ...\<close>
  through \<open>psql -d postgres -c\<close>, and starts the \<open>psql -f\<close> load only after it succeeded. On
  a \<open>.backup\<close> file it issues no such statement: apart from the staging copy and its
  removal, its one command is \<open>pg_restore\<close> with \<open>-C -d postgres\<close>.
\<close>

theorem restore_drop_create_before_load:
  "(\<exists>new. events (snd (restore_mysql w db_name file_path user password port host container s))
            = events s @ new
     \<and> (if truthy container then
           new = [(docker_exec_cmd (the container)
                     (mysql_drop_create_cmd db_name user password port host) [], False)]
           \<or> new = [(docker_exec_cmd (the container)
                        (mysql_drop_create_cmd db_name user password port host) [], True),
                     (docker_cp_cmd file_path
                        (container_path (the container) (remote_path file_path)), False)]
           \<or> (\<exists>b b'. new =
                 [(docker_exec_cmd (the container)
                     (mysql_drop_create_cmd db_name user password port host) [], True),
                  (docker_cp_cmd file_path
                     (container_path (the container) (remote_path file_path)), True),
                  (docker_exec_cmd (the container)
                     (mysql_load_cmd ''sh'' user password port host db_name (remote_path file_path))
                     [], b),
                  (docker_exec_cmd (the container) (rm_f_cmd (remote_path file_path)) [], b')])
         else
           new = [(mysql_drop_create_cmd db_name user password port host, False)]
           \<or> (\<exists>b. new =
                 [(mysql_drop_create_cmd db_name user password port host, True),
                  (mysql_load_cmd ''bash'' user password port host db_name file_path, b)])))
   \<and> (\<exists>new. events (snd (restore_postgres w db_name file_path user password port host container s))
            = events s @ new
     \<and> (if truthy container then
           (if splitext_ext file_path = ''.backup'' then
              new = [(docker_cp_cmd file_path
                        (container_path (the container) (remote_path file_path)), False)]
              \<or> (\<exists>b b'. new =
                    [(docker_cp_cmd file_path
                        (container_path (the container) (remote_path file_path)), True),
                     (docker_exec_cmd (the container)
                        (pg_restore_cmd user host port (remote_path file_path))
                        [(''PGPASSWORD'', password)], b),
                     (docker_exec_cmd (the container) (rm_f_cmd (remote_path file_path)) [], b')])
            else
              new = [(docker_cp_cmd file_path
                        (container_path (the container) (remote_path file_path)), False)]
              \<or> (\<exists>b'. new =
                    [(docker_cp_cmd file_path
                        (container_path (the container) (remote_path file_path)), True),
                     (docker_exec_cmd (the container) (psql_stmt_cmd user host port db_name)
                        [(''PGPASSWORD'', password)], False),
                     (docker_exec_cmd (the container) (rm_f_cmd (remote_path file_path)) [], b')])
              \<or> (\<exists>b b'. new =
                    [(docker_cp_cmd file_path
                        (container_path (the container) (remote_path file_path)), True),
                     (docker_exec_cmd (the container) (psql_stmt_cmd user host port db_name)
                        [(''PGPASSWORD'', password)], True),
                     (docker_exec_cmd (the container)
                        (psql_load_cmd user host port db_name (remote_path file_path))
                        [(''PGPASSWORD'', password)], b),
                     (docker_exec_cmd (the container) (rm_f_cmd (remote_path file_path)) [], b')]))
         else
           (if splitext_ext file_path = ''.backup'' then
              (\<exists>b. new = [(pg_restore_cmd user host port file_path, b)])
            else
              new = [(psql_stmt_cmd user host port db_name, False)]
              \<or> (\<exists>b. new =
                    [(psql_stmt_cmd user host port db_name, True),
                     (psql_load_cmd user host port db_name file_path, b)]))))
   \<and> last (mysql_drop_create_cmd db_name user password port host)
       = ''DROP DATABASE IF EXISTS '' @ [CHR 0x60] @ db_name @ [CHR 0x60]
         @ ''; CREATE DATABASE '' @ [CHR 0x60] @ db_name @ [CHR 0x60]
         @ '' CHARACTER SET utf8mb4 COLLATE utf8mb4_unicode_ci;''
   \<and> psql_stmt_cmd user host port db_name
       = [''psql'', ''-U'', user, ''-h'', host, ''-p'', port, ''-d'', ''postgres'', ''-c'',
          ''DROP DATABASE IF EXISTS '' @ shlex_quote db_name @ ''; CREATE DATABASE ''
          @ shlex_quote db_name @ '';'']
   \<and> psql_load_cmd user host port db_name file_path
       = [''psql'', ''-U'', user, ''-h'', host, ''-p'', port, ''-d'', db_name, ''-f'', file_path]
   \<and> pg_restore_cmd user host port file_path
       = [''pg_restore'', ''-U'', user, ''-h'', host, ''-p'', port, ''-C'', ''-d'', ''postgres'',
          file_path]"
proof -
  have sql: "last (mysql_drop_create_cmd db_name user password port host)
       = ''DROP DATABASE IF EXISTS '' @ [CHR 0x60] @ db_name @ [CHR 0x60]
         @ ''; CREATE DATABASE '' @ [CHR 0x60] @ db_name @ [CHR 0x60]
         @ '' CHARACTER SET utf8mb4 COLLATE utf8mb4_unicode_ci;''"
    by (simp add: mysql_drop_create_cmd_def mysql_pre_sql_def list_insert_def Let_def)
  have stmt: "psql_stmt_cmd user host port db_name
       = [''psql'', ''-U'', user, ''-h'', host, ''-p'', port, ''-d'', ''postgres'', ''-c'',
          ''DROP DATABASE IF EXISTS '' @ shlex_quote db_name @ ''; CREATE DATABASE ''
          @ shlex_quote db_name @ '';'']"
    by (simp add: psql_stmt_cmd_def postgres_stmt_def)
  have load: "psql_load_cmd user host port db_name file_path
       = [''psql'', ''-U'', user, ''-h'', host, ''-p'', port, ''-d'', db_name, ''-f'', file_path]"
    by (simp add: psql_load_cmd_def)
  have archive: "pg_restore_cmd user host port file_path
       = [''pg_restore'', ''-U'', user, ''-h'', host, ''-p'', port, ''-C'', ''-d'', ''postgres'',
          file_path]"
    by (simp add: pg_restore_cmd_def)
  show ?thesis
    by (intro conjI restore_mysql_events restore_postgres_events sql stmt load archive)
qed

section \<open>The statements sent to the server\<close>

lemma split_sql_plain:
  "CHR 0x60 \<notin> set xs \<Longrightarrow> quoted \<or> CHR '';'' \<notin> set xs \<Longrightarrow>
   split_sql quoted cur (xs @ ys) = split_sql quoted (rev xs @ cur) ys"
  by (induction xs arbitrary: cur) auto

lemma mysql_pre_sql_benign:
  assumes "CHR 0x60 \<notin> set db_name"
  shows "mysql_statements (mysql_pre_sql db_name)
     = [''DROP DATABASE IF EXISTS '' @ [CHR 0x60] @ db_name @ [CHR 0x60],
        '' CREATE DATABASE '' @ [CHR 0x60] @ db_name @ [CHR 0x60]
          @ '' CHARACTER SET utf8mb4 COLLATE utf8mb4_unicode_ci'',
        []]"
  using assms by (simp add: mysql_statements_def mysql_pre_sql_def split_sql_plain)


text \<open>
  Claim C6. \<open>_restore_mysql\<close> puts the database name between backquotes as it is. For
  a name without a backquote the command string is the two intended statements
  (\<open>mysql_pre_sql_benign\<close>). A name that contains a backquote closes the identifier: for
  the name \<open>x`; DROP DATABASE shop; -- \<close> the string sent with \<open>mysql -e\<close> has
  \<open>DROP DATABASE shop\<close> as its second statement. \<open>_restore_postgres\<close> applies
  \<open>shlex.quote\<close>, the quoting of a shell word, to the name: the name \<open>x--\<close> passes
  unchanged and turns the rest of the line, the \<open>CREATE DATABASE\<close> included, into an SQL
  comment.
\<close>

theorem mysql_pre_sql_injection:
  "mysql_pre_sql malicious_name
     = ''DROP DATABASE IF EXISTS '' @ [CHR 0x60] @ ''x'' @ [CHR 0x60] @ ''; DROP DATABASE shop; -- ''
       @ [CHR 0x60] @ ''; CREATE DATABASE '' @ [CHR 0x60] @ ''x'' @ [CHR 0x60]
       @ ''; DROP DATABASE shop; -- '' @ [CHR 0x60]
       @ '' CHARACTER SET utf8mb4 COLLATE utf8mb4_unicode_ci;''
   \<and> take 2 (mysql_statements (mysql_pre_sql malicious_name))
     = [''DROP DATABASE IF EXISTS '' @ [CHR 0x60] @ ''x'' @ [CHR 0x60], '' DROP DATABASE shop'']
   \<and> last (mysql_drop_create_cmd malicious_name ''root'' ''secret'' ''3306'' ''127.0.0.1'')
     = mysql_pre_sql malicious_name
   \<and> postgres_stmt ''x--'' = ''DROP DATABASE IF EXISTS x--; CREATE DATABASE x--;''"
  by (simp add: mysql_statements_def mysql_pre_sql_def malicious_name_def
      mysql_drop_create_cmd_def list_insert_def Let_def postgres_stmt_def shlex_quote_def
      is_shell_safe_def)

section \<open>Properties of \<open>restore_database\<close>\<close>

lemma files_example:
  "list_backup_files fs_example ''/b'' ''app'' POSTGRES_EXT_PRIORIDAD
     = [''/b/app_20250807_230117.sql'', ''/b/app_20250807_230117.backup'']"
  by (simp add: list_backup_files_def fs_example_def POSTGRES_EXT_PRIORIDAD_def
      sort_mtime_desc_def startswith_def endswith_def path_join_def suffix_to_prefix)

lemma chosen_example:
  "choose_latest [''/b/app_20250807_230117.sql'', ''/b/app_20250807_230117.backup'']
     POSTGRES_EXT_PRIORIDAD = Some ''/b/app_20250807_230117.backup''"
  by (simp add: choose_latest_def POSTGRES_EXT_PRIORIDAD_def endswith_def suffix_to_prefix)

lemma ext_example: "splitext_ext ''/b/app_20250807_230117.backup'' = ''.backup''"
  by (simp add: splitext_ext_def basename_def Let_def)

lemma lower_postgres: "lower ''postgres'' = ''postgres''"
  by (simp add: lower_def)


lemma run_uncaptured: "fst (run w cmd env False s) = Inl e \<Longrightarrow> uncaptured e"
  by (auto simp: run_def Let_def split: outcome.splits if_splits)

lemma and_then_error:
  "fst (and_then m f s) = Inl e \<Longrightarrow>
   fst (m s) = Inl e \<or> (\<exists>x. fst (m s) = Inr x \<and> fst (f x (snd (m s))) = Inl e)"
  by (cases "m s") (auto simp: and_then_def split: sum.splits)

lemma run_seq_uncaptured: "fst (run_seq w cs s) = Inl e \<Longrightarrow> uncaptured e"
proof (induction cs arbitrary: s)
  case Nil
  then show ?case by (simp add: return_def)
next
  case (Cons c rest)
  obtain cmd env where c: "c = (cmd, env)" by (cases c)
  from Cons.prems have "fst (and_then (run w cmd env False) (\<lambda>_. run_seq w rest) s) = Inl e"
    by (simp add: c)
  then have "fst (run w cmd env False s) = Inl e
      \<or> (\<exists>x. fst (run_seq w rest (snd (run w cmd env False s))) = Inl e)"
    by (blast dest: and_then_error)
  then show ?case
  proof
    assume "fst (run w cmd env False s) = Inl e"
    then show ?thesis by (rule run_uncaptured)
  next
    assume "\<exists>x. fst (run_seq w rest (snd (run w cmd env False s))) = Inl e"
    then show ?thesis by (simp add: Cons.IH)
  qed
qed

lemma staged_uncaptured:
  "fst (and_then (run w cp env False)
         (\<lambda>_. try_finally (run_seq w body) (swallow (run w rm env' capt'))) s) = Inl e \<Longrightarrow>
   uncaptured e"
proof -
  assume "fst (and_then (run w cp env False)
         (\<lambda>_. try_finally (run_seq w body) (swallow (run w rm env' capt'))) s) = Inl e"
  then have "fst (run w cp env False s) = Inl e
      \<or> (\<exists>s1. fst (try_finally (run_seq w body) (swallow (run w rm env' capt')) s1) = Inl e)"
    by (blast dest: and_then_error)
  then have "fst (run w cp env False s) = Inl e \<or> (\<exists>s1. fst (run_seq w body s1) = Inl e)"
    by (simp add: try_finally_swallow)
  then show ?thesis using run_uncaptured run_seq_uncaptured by blast
qed

lemma restore_postgres_uncaptured:
  assumes "fst (restore_postgres w db_name file_path user password port host container s) = Inl e"
  shows "uncaptured e"
proof (cases "truthy container")
  case False
  let ?env = "Some [(''PGPASSWORD'', password)]"
  have "restore_postgres w db_name file_path user password port host container
      = run_seq w (if splitext_ext file_path = ''.backup''
                   then [(pg_restore_cmd user host port file_path, ?env)]
                   else [(psql_stmt_cmd user host port db_name, ?env),
                         (psql_load_cmd user host port db_name file_path, ?env)])"
    using False by (simp add: restore_postgres_def Let_def)
  with assms show ?thesis by (simp only: run_seq_uncaptured)
next
  case True
  let ?c = "the container"
  let ?ev = "[(''PGPASSWORD'', password)]"
  let ?body = "if splitext_ext file_path = ''.backup''
      then [(docker_exec_cmd ?c (pg_restore_cmd user host port (remote_path file_path)) ?ev, None)]
      else [(docker_exec_cmd ?c (psql_stmt_cmd user host port db_name) ?ev, None),
            (docker_exec_cmd ?c (psql_load_cmd user host port db_name (remote_path file_path)) ?ev,
             None)]"
  have "restore_postgres w db_name file_path user password port host container
      = and_then (run w (docker_cp_cmd file_path (container_path ?c (remote_path file_path))) None False)
          (\<lambda>_. try_finally (run_seq w ?body)
                 (swallow (run w (docker_exec_cmd ?c (rm_f_cmd (remote_path file_path)) []) None False)))"
    using True by (simp add: restore_postgres_def Let_def docker_exec_def)
  with assms show ?thesis by (simp only: staged_uncaptured)
qed

lemma restore_mysql_uncaptured:
  assumes "fst (restore_mysql w db_name file_path user password port host container s) = Inl e"
  shows "uncaptured e"
proof (cases "truthy container")
  case False
  have "restore_mysql w db_name file_path user password port host container
      = run_seq w [(mysql_drop_create_cmd db_name user password port host, None),
                   (mysql_load_cmd ''bash'' user password port host db_name file_path, None)]"
    using False by (simp add: restore_mysql_def Let_def)
  with assms show ?thesis by (simp only: run_seq_uncaptured)
next
  case True
  let ?c = "the container"
  let ?dc = "docker_exec_cmd ?c (mysql_drop_create_cmd db_name user password port host) []"
  let ?rest = "and_then (run w (docker_cp_cmd file_path (container_path ?c (remote_path file_path))) None False)
      (\<lambda>_. try_finally
             (run_seq w [(docker_exec_cmd ?c
                (mysql_load_cmd ''sh'' user password port host db_name (remote_path file_path)) [], None)])
             (swallow (run w (docker_exec_cmd ?c (rm_f_cmd (remote_path file_path)) []) None False)))"
  have "restore_mysql w db_name file_path user password port host container
      = and_then (run w ?dc None False) (\<lambda>_. ?rest)"
    using True by (simp add: restore_mysql_def Let_def docker_exec_def)
  with assms have "fst (and_then (run w ?dc None False) (\<lambda>_. ?rest) s) = Inl e" by simp
  then have "fst (run w ?dc None False s) = Inl e \<or> (\<exists>s1. fst (?rest s1) = Inl e)"
    by (blast dest: and_then_error)
  then show ?thesis using run_uncaptured staged_uncaptured by blast
qed

lemma log_then_return: "fst (and_then (write_log x) (\<lambda>_. return r) s) = Inr r"
  by (simp add: and_then_def write_log_def return_def)

lemma logged_exec_error:
  assumes "fst (and_then (write_log a)
             (\<lambda>_. and_then m (\<lambda>_. and_then (write_log b) (\<lambda>_. return r))) s) = Inl e"
  shows "\<exists>s1. fst (m s1) = Inl e"
proof -
  from assms have "fst (and_then m (\<lambda>_. and_then (write_log b) (\<lambda>_. return r))
      (s\<lparr>log := log s @ [a]\<rparr>)) = Inl e"
    by (simp add: and_then_def write_log_def)
  then have "fst (m (s\<lparr>log := log s @ [a]\<rparr>)) = Inl e
      \<or> (\<exists>x. fst (m (s\<lparr>log := log s @ [a]\<rparr>)) = Inr x
            \<and> fst (and_then (write_log b) (\<lambda>_. return r) (snd (m (s\<lparr>log := log s @ [a]\<rparr>))))
                = Inl e)"
    by (rule and_then_error)
  then show ?thesis
    by (auto simp: log_then_return)
qed

lemma restore_body_uncaptured:
  fixes fs :: "('t::linorder) filesystem"
  assumes "fst (restore_body w fs db_type user password port host container backup_dir target_db
                  file_path s) = Inl e"
  shows "uncaptured e"
proof -
  let ?exec = "\<lambda>chosen. if db_type = ''postgres'' then
        restore_postgres w target_db (the chosen) user password port host container
      else restore_mysql w target_db (the chosen) user password port host container"
  have executor: "\<And>chosen s1. fst (?exec chosen s1) = Inl e \<Longrightarrow> uncaptured e"
    by (auto dest: restore_postgres_uncaptured restore_mysql_uncaptured split: if_splits)
  have branches: "\<And>sel :: unit + string option.
      fst ((case sel of
              Inl _ \<Rightarrow> and_then (write_log (Err_unsupported_type db_type)) (\<lambda>_. return None)
            | Inr chosen \<Rightarrow>
                if \<not> truthy chosen then
                  and_then (write_log (Err_no_backups target_db backup_dir)) (\<lambda>_. return None)
                else
                  and_then (write_log (Info_restoring target_db (the chosen))) (\<lambda>_.
                  and_then (?exec chosen) (\<lambda>_.
                  and_then (write_log (Info_restored target_db)) (\<lambda>_. return chosen)))) s) = Inl e
      \<Longrightarrow> uncaptured e"
  proof -
    fix sel :: "unit + string option"
    assume err: "fst ((case sel of
              Inl _ \<Rightarrow> and_then (write_log (Err_unsupported_type db_type)) (\<lambda>_. return None)
            | Inr chosen \<Rightarrow>
                if \<not> truthy chosen then
                  and_then (write_log (Err_no_backups target_db backup_dir)) (\<lambda>_. return None)
                else
                  and_then (write_log (Info_restoring target_db (the chosen))) (\<lambda>_.
                  and_then (?exec chosen) (\<lambda>_.
                  and_then (write_log (Info_restored target_db)) (\<lambda>_. return chosen)))) s) = Inl e"
    show "uncaptured e"
    proof (cases sel)
      case (Inl u)
      with err show ?thesis by (simp add: log_then_return)
    next
      case (Inr chosen)
      show ?thesis
      proof (cases "truthy chosen")
        case False
        with err Inr show ?thesis by (simp add: log_then_return)
      next
        case True
        with err Inr have "fst (and_then (write_log (Info_restoring target_db (the chosen))) (\<lambda>_.
            and_then (?exec chosen) (\<lambda>_.
            and_then (write_log (Info_restored target_db)) (\<lambda>_. return chosen))) s) = Inl e"
          by simp
        then have "\<exists>s1. fst (?exec chosen s1) = Inl e"
          by (rule logged_exec_error)
        then show ?thesis using executor by blast
      qed
    qed
  qed
  from assms show ?thesis
    unfolding restore_body_def Let_def by (rule branches)
qed

lemma restore_handlers_uncaptured:
  "fst (body s) = Inl (CalledProcessError rc cmd se) \<Longrightarrow> uncaptured (CalledProcessError rc cmd se) \<Longrightarrow>
   restore_handlers conf body s = (Inl (AttributeError ''strip''), snd (body s))"
  by (cases "body s") (simp add: restore_handlers_def)

lemma restore_command_failure_raises:
  fixes fs :: "('t::linorder) filesystem"
  assumes "fst (restore_body w fs db_type user password port host container backup_dir target_db
                  file_path s) = Inl (CalledProcessError rc cmd se)"
  shows "restore_handlers conf
           (restore_body w fs db_type user password port host container backup_dir target_db
              file_path) s
         = (Inl (AttributeError ''strip''),
            snd (restore_body w fs db_type user password port host container backup_dir target_db
                   file_path s))"
  using assms restore_body_uncaptured [OF assms] by (rule restore_handlers_uncaptured)

text \<open>
  Claim C8. Every command of the restore executors is run without capturing its output,
  so every \<open>CalledProcessError\<close> that reaches the first \<open>except\<close> clause of
  \<open>restore_database\<close> has \<open>stderr = None\<close> (\<open>restore_body_uncaptured\<close>); the clause
  evaluates \<open>stderr.strip()\<close> before it logs, and the \<open>AttributeError\<close> leaves the
  function (\<open>restore_command_failure_raises\<close>). With a \<open>pg_restore\<close> that exits with code
  1, \<open>restore_database\<close> raises \<open>AttributeError\<close>; the log holds the start message only,
  and no record of the failure with the redacted configuration.
\<close>

theorem restore_database_command_failure_raises:
  "fst (restore_database world_fail fs_example conf_example (Some ''app'') None init_state)
     = Inl (AttributeError ''strip'')
   \<and> log (snd (restore_database world_fail fs_example conf_example (Some ''app'') None init_state))
     = [Info_restoring ''app'' ''/b/app_20250807_230117.backup'']
   \<and> commands (snd (restore_database world_fail fs_example conf_example (Some ''app'') None init_state))
     = [[''pg_restore'', ''-U'', ''admin'', ''-h'', ''127.0.0.1'', ''-p'', ''5432'', ''-C'', ''-d'',
         ''postgres'', ''/b/app_20250807_230117.backup'']]"
  by (simp add: restore_database_def restore_body_def restore_handlers_def restore_postgres_def
      conf_example_def conf_item_def conf_get_def lower_postgres Let_def files_example
      chosen_example ext_example and_then_def return_def write_log_def run_def world_fail_def
      init_state_def pg_restore_cmd_def commands_def)


text \<open>The other outcomes are as the specification has them: an exception that is not a
  \<open>CalledProcessError\<close> is logged and gives \<open>None\<close>, a successful restore gives the path of
  the file used; a configuration without \<open>username\<close> raises \<open>KeyError\<close> before the \<open>try\<close>.\<close>

lemma restore_database_other_outcomes:
  "restore_database world_no_binary fs_example conf_example (Some ''app'') None init_state
     = (Inr None,
        \<lparr>trace = [(\<lparr>argv = [''pg_restore'', ''-U'', ''admin'', ''-h'', ''127.0.0.1'', ''-p'', ''5432'',
                               ''-C'', ''-d'', ''postgres'', ''/b/app_20250807_230117.backup''],
                      call_env = Some [(''PGPASSWORD'', ''secret'')], capture = False\<rparr>,
                     Spawn_failed ''No such file or directory'')],
         log = [Info_restoring ''app'' ''/b/app_20250807_230117.backup'',
                Exc_unexpected (OSError ''No such file or directory'')],
         reads = 0\<rparr>)
   \<and> fst (restore_database world_ok fs_example conf_example (Some ''app'') None init_state)
     = Inr (Some ''/b/app_20250807_230117.backup'')
   \<and> fst (restore_database world_ok fs_example [(''type'', ''postgres'')] (Some ''app'') None init_state)
     = Inl (KeyError ''username'')"
  by (simp add: restore_database_def restore_body_def restore_handlers_def restore_postgres_def
      conf_example_def conf_item_def conf_get_def lower_postgres Let_def files_example
      chosen_example ext_example and_then_def return_def raise_def write_log_def run_def
      world_no_binary_def world_ok_def init_state_def pg_restore_cmd_def)

lemma and_then_return: "and_then (return x) f s = f x s"
  by (simp add: and_then_def return_def)

lemma conf_item_Some: "map_of conf k = Some v \<Longrightarrow> conf_item conf k = return v"
  by (simp add: conf_item_def)

lemma list_backup_files_missing:
  "fs_listdir fs dir = None \<Longrightarrow> list_backup_files fs dir db_name exts = []"
  by (simp add: list_backup_files_def)

lemma list_backup_files_empty:
  "fs_listdir fs dir = Some [] \<Longrightarrow> list_backup_files fs dir db_name exts = []"
  by (simp add: list_backup_files_def sort_mtime_desc_def)

lemma restore_handlers_return: "restore_handlers conf (and_then (write_log e) (\<lambda>_. return None)) s
   = (Inr None, s\<lparr>log := log s @ [e]\<rparr>)"
  by (simp add: restore_handlers_def and_then_def write_log_def return_def)


text \<open>
  Claim C10. \<open>_list_backup_files\<close> returns the empty list for a directory that does not
  exist. \<open>restore_database\<close>, given a configuration with \<open>username\<close> and \<open>password\<close> and no
  explicit file, on a backup directory that does not exist or is empty, returns \<open>None\<close>,
  leaves the trace of external commands as it was, and logs exactly one error: that no
  backups were found for the database in the directory, when a database name is known
  and the engine is \<open>postgres\<close>, \<open>mysql\<close> or \<open>mariadb\<close> (and the error of the missing
  name or of the unsupported engine otherwise).
\<close>

theorem restore_database_no_candidates:
  fixes fs :: "('t::linorder) filesystem"
  assumes user: "map_of conf ''username'' = Some user"
    and password: "map_of conf ''password'' = Some password"
    and no_file: "\<not> truthy file_path"
    and dir: "fs_listdir fs (conf_get conf ''backup_dir'' ''./'') = None
              \<or> fs_listdir fs (conf_get conf ''backup_dir'' ''./'') = Some []"
  shows "(fs_listdir fs d = None \<longrightarrow> list_backup_files fs d db_name exts = [])
    \<and> restore_database w fs conf db file_path s
      = (Inr None,
         s\<lparr>log := log s @
           [if \<not> truthy (if truthy db then db else map_of conf ''db'') then Err_need_db_or_file
            else if lower (conf_get conf ''type'' ''postgres'') \<noteq> ''postgres''
                  \<and> lower (conf_get conf ''type'' ''postgres'') \<noteq> ''mysql''
                  \<and> lower (conf_get conf ''type'' ''postgres'') \<noteq> ''mariadb''
              then Err_unsupported_type (lower (conf_get conf ''type'' ''postgres''))
            else Err_no_backups (the (if truthy db then db else map_of conf ''db''))
                   (conf_get conf ''backup_dir'' ''./'')]\<rparr>)"
proof -
  let ?dir = "conf_get conf ''backup_dir'' ''./''"
  have none: "\<And>name exts. list_backup_files fs ?dir name exts = []"
    using dir by (auto simp: list_backup_files_missing list_backup_files_empty)
  have choose: "\<And>pref. choose_latest [] pref = None"
    by (simp add: choose_latest_def)
  have first: "fs_listdir fs d = None \<longrightarrow> list_backup_files fs d db_name exts = []"
    by (simp add: list_backup_files_missing)
  have second: "restore_database w fs conf db file_path s
      = (Inr None,
         s\<lparr>log := log s @
           [if \<not> truthy (if truthy db then db else map_of conf ''db'') then Err_need_db_or_file
            else if lower (conf_get conf ''type'' ''postgres'') \<noteq> ''postgres''
                  \<and> lower (conf_get conf ''type'' ''postgres'') \<noteq> ''mysql''
                  \<and> lower (conf_get conf ''type'' ''postgres'') \<noteq> ''mariadb''
              then Err_unsupported_type (lower (conf_get conf ''type'' ''postgres''))
            else Err_no_backups (the (if truthy db then db else map_of conf ''db''))
                   (conf_get conf ''backup_dir'' ''./'')]\<rparr>)"
    using no_file
    by (simp add: restore_database_def restore_body_def Let_def conf_item_Some [OF user]
        conf_item_Some [OF password] and_then_return none choose restore_handlers_return)
       (simp add: and_then_def write_log_def return_def)
  from first second show ?thesis by blast
qed

theorem restore_database_no_candidates_witness:
  "restore_database world_ok fs_example conf_missing_dir (Some ''app'') None init_state
     = (Inr None, \<lparr>trace = [], log = [Err_no_backups ''app'' ''/missing''], reads = 0\<rparr>)"
proof -
  have user: "map_of conf_missing_dir ''username'' = Some ''admin''"
    by (simp add: conf_missing_dir_def)
  have password: "map_of conf_missing_dir ''password'' = Some ''secret''"
    by (simp add: conf_missing_dir_def)
  have no_file: "\<not> truthy None" by simp
  have backup_dir: "conf_get conf_missing_dir ''backup_dir'' ''./'' = ''/missing''"
    by (simp add: conf_get_def conf_missing_dir_def)
  have engine: "lower (conf_get conf_missing_dir ''type'' ''postgres'') = ''postgres''"
    by (simp add: conf_get_def conf_missing_dir_def lower_postgres)
  have dir: "fs_listdir fs_example (conf_get conf_missing_dir ''backup_dir'' ''./'') = None
      \<or> fs_listdir fs_example (conf_get conf_missing_dir ''backup_dir'' ''./'') = Some []"
    by (simp add: backup_dir fs_example_def)
  from restore_database_no_candidates [OF user password no_file dir,
      of "''/missing''" "''app''" POSTGRES_EXT_PRIORIDAD world_ok "Some ''app''" init_state]
  show ?thesis
    by (simp add: backup_dir engine init_state_def)
qed

end
